theory Spec2Isabelle
  imports Main "HOL-Library.Word"
begin

unbundle bit_operations_syntax

section \<open>JSON values and the accessors the handlers use\<close>

text \<open>
  The daemon passes trigger definitions, command arguments and configuration around as
  JSON documents. Objects are kept as association lists with one entry per key, in the
  order the keys were first set. A C++ \<open>json_ref\<close> may be a null reference, which is not
  the JSON value \<open>null\<close>: a reference is a \<open>json option\<close>, \<open>None\<close> the null reference.
  Real numbers are left out: no code below tells them from any other value that is
  neither a string, an array, an integer nor a boolean.
\<close>

datatype json =
    JNull
  | JTrue
  | JFalse
  | JInteger int
  | JString string
  | JArray "json list"
  | JObject "(string \<times> json) list"

type_synonym json_ref = "json option"

fun json_is_string :: "json \<Rightarrow> bool" where
  "json_is_string (JString s) = True"
| "json_is_string j = False"

fun json_is_array :: "json \<Rightarrow> bool" where
  "json_is_array (JArray xs) = True"
| "json_is_array j = False"

fun json_is_true :: "json \<Rightarrow> bool" where
  "json_is_true JTrue = True"
| "json_is_true j = False"

text \<open>The elements of an array; a value that is not an array has none (its size is 0).\<close>

fun json_array_elems :: "json \<Rightarrow> json list" where
  "json_array_elems (JArray xs) = xs"
| "json_array_elems j = []"

definition json_array_size :: "json \<Rightarrow> nat" where
  "json_array_size j = length (json_array_elems j)"

definition json_boolean :: "bool \<Rightarrow> json" where
  "json_boolean b = (if b then JTrue else JFalse)"

text \<open>\<open>json_string_value\<close> and \<open>json_to_w_string\<close>: the text of a string value.\<close>

fun json_string_value :: "json \<Rightarrow> string" where
  "json_string_value (JString s) = s"
| "json_string_value j = []"

text \<open>\<open>json_integer_value\<close>: the number of an integer value, 0 for every other value.\<close>

fun json_integer_value :: "json \<Rightarrow> int" where
  "json_integer_value (JInteger n) = n"
| "json_integer_value j = 0"

text \<open>
  \<open>get_default\<close>: the value under a key of an object, the null reference when the key
  is absent or the value is not an object. \<open>get_default_or\<close> is the two-argument form,
  which answers the given default instead of the null reference.
\<close>

fun get_default :: "json \<Rightarrow> string \<Rightarrow> json_ref" where
  "get_default (JObject kvs) key = map_of kvs key"
| "get_default j key = None"

definition get_default_or :: "json \<Rightarrow> string \<Rightarrow> json \<Rightarrow> json" where
  "get_default_or j key defval = (case get_default j key of None \<Rightarrow> defval | Some v \<Rightarrow> v)"

text \<open>
  \<open>json_object_set\<close>: set a key of an object, replacing the entry the key already has.
  Setting a key to the null reference is refused by the library and leaves the object as
  it was, and so does setting a key of a value that is not an object.
\<close>

fun set_entry :: "string \<Rightarrow> 'v \<Rightarrow> (string \<times> 'v) list \<Rightarrow> (string \<times> 'v) list" where
  "set_entry k v [] = [(k, v)]"
| "set_entry k v (p # ps) = (if fst p = k then (k, v) # ps else p # set_entry k v ps)"

fun json_object_set :: "json \<Rightarrow> string \<Rightarrow> json_ref \<Rightarrow> json" where
  "json_object_set (JObject kvs) key (Some v) = JObject (set_entry key v kvs)"
| "json_object_set j key v = j"

text \<open>\<open>json_object({{k, v}, ...})\<close>: an object built from a list of keys and references.\<close>

definition json_object :: "(string \<times> json_ref) list \<Rightarrow> json" where
  "json_object kvs = foldl (\<lambda>obj (k, v). json_object_set obj k v) (JObject []) kvs"

text \<open>\<open>json_unpack(trig, "{s:s}", key, &out)\<close>: the text under \<open>key\<close> when the value is an
  object that holds a string there; otherwise \<open>out\<close> keeps the null pointer it had.\<close>

definition json_unpack_string :: "json \<Rightarrow> string \<Rightarrow> string option" where
  "json_unpack_string j key =
     (case get_default j key of Some (JString s) \<Rightarrow> Some s | _ \<Rightarrow> None)"

section \<open>Output redirection: \<open>parse_redirection\<close>\<close>

text \<open>
  The open flags come from the platform's \<open><fcntl.h>\<close> and the \<open>_WIN32\<close> switch from the
  compiler; both are parameters. Flags are C \<open>int\<close>s, combined with bitwise or.
\<close>

record platform =
  win32 :: bool
  O_CREAT :: "32 word"
  O_CLOEXEC :: "32 word"
  O_WRONLY :: "32 word"
  O_APPEND :: "32 word"
  O_TRUNC :: "32 word"

text \<open>\<open>name[i]\<close> of a C string: the terminating NUL at (and, for the model, beyond) its end.\<close>

definition c_at :: "string \<Rightarrow> nat \<Rightarrow> char" where
  "c_at s i = (if i < length s then s ! i else CHR 0x00)"

text \<open>
  \<open>parse_redirection(&name, &flags, label, &errmsg)\<close>. The result is \<open>Inl\<close> the error
  message when the function returns false, and \<open>Inr\<close> the values \<open>*name_p\<close> and \<open>*flags\<close>
  hold when it returns true.
\<close>

definition parse_redirection ::
  "platform \<Rightarrow> string option \<Rightarrow> 32 word \<Rightarrow> string \<Rightarrow> string + (string option \<times> 32 word)" where
  "parse_redirection pf name_p flags label =
     (case name_p of
        None \<Rightarrow> Inr (None, flags)
      | Some name \<Rightarrow>
          if c_at name 0 \<noteq> CHR ''>''
          then Inl (label @ '': must be prefixed with either > or >>, got '' @ name)
          else if c_at name 1 = CHR ''>''
          then (if win32 pf
                then Inl ''Windows does not support O_APPEND''
                else Inr (Some (drop 2 name),
                          O_CREAT pf OR O_CLOEXEC pf OR O_WRONLY pf OR O_APPEND pf))
          else Inr (Some (drop 1 name),
                    O_CREAT pf OR O_CLOEXEC pf OR O_WRONLY pf OR O_TRUNC pf))"

section \<open>Trigger commands\<close>

text \<open>
  A parsed query, as far as the trigger code touches it: the constructor switches
  \<open>dedup_results\<close> on and stores a field list; the rest of the query is the parser's.
\<close>

record query =
  query_def :: json
  dedup_results :: bool
  fieldList :: "string list"

datatype stdin_style = input_dev_null | input_json | input_name_list

text \<open>
  The collaborators of the trigger code that live outside these sources, as parameters:
  the root resolver (which reports its own failure to the client), the two query parsers
  and the field-list parser (each gives an error message or a result), the structural
  comparison \<open>json_equal\<close>, the fields \<open>make_response\<close> starts a response with, the
  process environment and the path of the control socket.
\<close>

record collab =
  plat :: platform
  resolve_root_or_err :: "json \<Rightarrow> bool \<Rightarrow> bool"
  w_query_parse :: "json \<Rightarrow> string + query"
  w_query_parse_legacy :: "json \<Rightarrow> nat \<Rightarrow> string + (nat \<times> json)"
  parse_field_list :: "json \<Rightarrow> string + string list"
  json_equal :: "json \<Rightarrow> json \<Rightarrow> bool"
  make_response :: "(string \<times> json) list"
  w_envp_make_ht :: "(string \<times> string) list"
  get_sock_name :: string

text \<open>
  \<open>watchman_trigger_command\<close>. \<open>defn\<close> is the member \<open>definition\<close>, \<open>stopTrigger\<close> the
  flag \<open>stopTrigger_\<close> and \<open>thread_joinable\<close> what \<open>triggerThread_.joinable()\<close> answers.
  \<open>max_files_stdin\<close> holds the number the constructor read, which is not negative; the
  width of the member is the header's. The event, the subscription and the id of the
  running child process play no part below and are left out.
\<close>

record trigger_command =
  defn :: json
  query :: query
  triggername :: string
  command :: json
  envht :: "(string \<times> string) list"
  append_files :: bool
  stdin_style :: stdin_style
  max_files_stdin :: int
  stdout_flags :: "32 word"
  stderr_flags :: "32 word"
  stdout_name :: "string option"
  stderr_name :: "string option"
  stopTrigger :: bool
  thread_joinable :: bool

text \<open>The query document the constructor hands to the query parser.\<close>

definition queryDef_of :: "json \<Rightarrow> json" where
  "queryDef_of trig =
     (let queryDef = json_object [(''expression'', get_default trig ''expression'')];
          relative_root = get_default trig ''relative_root''
      in case relative_root of
           None \<Rightarrow> queryDef
         | Some r \<Rightarrow> json_object_set queryDef ''relative_root'' (Some r))"

text \<open>
  The part of the constructor that reads the \<open>stdin\<close> property: \<open>Inl\<close> the error
  message it returns with, \<open>Inr\<close> the style it chose and the query with the field list
  it stored.
\<close>

definition stdin_property :: "collab \<Rightarrow> json \<Rightarrow> query \<Rightarrow> string + (stdin_style \<times> query)" where
  "stdin_property ext trig q =
     (case get_default trig ''stdin'' of
        None \<Rightarrow> Inr (input_dev_null, q)
      | Some ele \<Rightarrow>
          if json_is_array ele then
            (case parse_field_list ext ele of
               Inl errmsg \<Rightarrow> Inl errmsg
             | Inr fl \<Rightarrow> Inr (input_json, q\<lparr>fieldList := fl\<rparr>))
          else if json_is_string ele then
            (let str = json_string_value ele in
             if str = ''/dev/null'' then Inr (input_dev_null, q)
             else if str = ''NAME_PER_LINE'' then
               (case parse_field_list ext (JArray [JString ''name'']) of
                  Inl errmsg \<Rightarrow> Inl errmsg
                | Inr fl \<Rightarrow> Inr (input_name_list, q\<lparr>fieldList := fl\<rparr>))
             else Inl (''invalid stdin value '' @ str))
          else Inl ''invalid value for stdin'')"

text \<open>
  The constructor, given the path of the root. It reports a failure through \<open>*errmsg\<close>
  and returns early: \<open>Inl\<close> that message. \<open>Inr\<close> is the object it leaves when it runs
  to its end, with a thread that was never started and the stop flag clear (the flag's
  initial value is the header's; the spec has the thread run until a stop is requested).
  A query parser that fails is taken to set the message, as the handler relies on.
\<close>

definition new_trigger_command :: "collab \<Rightarrow> string \<Rightarrow> json \<Rightarrow> string + trigger_command" where
  "new_trigger_command ext rpath trig =
     (case w_query_parse ext (queryDef_of trig) of
        Inl errmsg \<Rightarrow> Inl errmsg
      | Inr q0 \<Rightarrow>
     (case get_default trig ''name'' of
        None \<Rightarrow> Inl ''invalid or missing name''
      | Some name \<Rightarrow>
     if \<not> json_is_string name then Inl ''invalid or missing name''
     else
     (case get_default trig ''command'' of
        None \<Rightarrow> Inl ''invalid command array''
      | Some cmd \<Rightarrow>
     if \<not> json_is_array cmd \<or> json_array_size cmd = 0 then Inl ''invalid command array''
     else
     let append = json_is_true (get_default_or trig ''append_files'' JFalse);
         q1 = (if append then q0\<lparr>dedup_results := True\<rparr> else q0)
     in
     (case stdin_property ext trig q1 of
        Inl errmsg \<Rightarrow> Inl errmsg
      | Inr (style, q2) \<Rightarrow>
     let ival = json_integer_value (get_default_or trig ''max_files_stdin'' (JInteger 0))
     in
     if ival < 0 then Inl ''max_files_stdin must be >= 0''
     else
     (case parse_redirection (plat ext) (json_unpack_string trig ''stdout'') 0 ''stdout'' of
        Inl errmsg \<Rightarrow> Inl errmsg
      | Inr (out_name, out_flags) \<Rightarrow>
     (case parse_redirection (plat ext) (json_unpack_string trig ''stderr'') 0 ''stderr'' of
        Inl errmsg \<Rightarrow> Inl errmsg
      | Inr (err_name, err_flags) \<Rightarrow>
     Inr \<lparr> defn = trig,
           query = q2,
           triggername = json_string_value name,
           command = cmd,
           envht = set_entry ''WATCHMAN_TRIGGER'' (json_string_value name)
                     (set_entry ''WATCHMAN_SOCK'' (get_sock_name ext)
                        (set_entry ''WATCHMAN_ROOT'' rpath (w_envp_make_ht ext))),
           append_files = append,
           stdin_style = style,
           max_files_stdin = ival,
           stdout_flags = out_flags,
           stderr_flags = err_flags,
           stdout_name = out_name,
           stderr_name = err_name,
           stopTrigger = False,
           thread_joinable = False \<rparr>))))))"

subsection \<open>Thread lifecycle: \<open>start\<close>, \<open>stop\<close> and the destructor\<close>

text \<open>
  What a handler does that another thread, the client or the disk can see, in order.
  The string of a thread or flag event is the name of the trigger it belongs to.
\<close>

datatype event =
    TriggersWLock
  | TriggersWUnlock
  | SetStopFlag string
  | EventSetPing string
  | ThreadJoin string
  | Subscribe string
  | ThreadStart string
  | RootLock string
  | RootUnlock
  | StateSave
  | SendError string
  | SendResponse json
  | RootDelref

text \<open>
  \<open>stop()\<close> sets the stop flag and, when the thread is joinable, wakes and joins it; a
  joined thread is no longer joinable. The join is taken to return: what the thread
  runs (\<open>run\<close>) is outside this model.
\<close>

definition stop :: "trigger_command \<Rightarrow> trigger_command \<times> event list" where
  "stop c =
     (let c1 = c\<lparr>stopTrigger := True\<rparr> in
      if thread_joinable c1
      then (c1\<lparr>thread_joinable := False\<rparr>,
            [SetStopFlag (triggername c), EventSetPing (triggername c), ThreadJoin (triggername c)])
      else (c1, [SetStopFlag (triggername c)]))"

text \<open>\<open>start(root)\<close> subscribes to the root's responses and starts the thread.\<close>

definition start :: "trigger_command \<Rightarrow> trigger_command \<times> event list" where
  "start c =
     (c\<lparr>thread_joinable := True\<rparr>, [Subscribe (triggername c), ThreadStart (triggername c)])"

text \<open>
  Modelled from the spec: the logger behind \<open>watchman::log(watchman::FATAL, ...)\<close> is not
  in the sources; the spec has this violation "terminate the process rather than being
  caught". \<open>FatalAbort\<close> is that end of the process, \<open>Destroyed\<close> the destructor running
  to its end.
\<close>

datatype dtor_outcome = Destroyed | FatalAbort

text \<open>
  The destructor logs at the FATAL level when the thread is joinable and the stop flag
  is clear.
\<close>

definition dtor :: "trigger_command \<Rightarrow> dtor_outcome" where
  "dtor c = (if thread_joinable c \<and> \<not> stopTrigger c then FatalAbort else Destroyed)"

section \<open>The trigger handlers\<close>

text \<open>
  The root is one structure in the sources; each part of this development extends
  \<open>root_base\<close> by the fields it works on.
\<close>

record root_base =
  root_path :: string

text \<open>
  Modelled from the spec: the declaration of the tick counter is not in the sources; the
  spec has "a monotonically increasing tick counter", a natural number here. The rest
  of the state the handlers work on is the code's: the root's path, its trigger table,
  and the trace of what the handlers did so far.
\<close>

record world = root_base +
  triggers :: "string \<rightharpoonup> trigger_command"
  ticks :: nat
  trace :: "event list"

text \<open>
  A command that leaves a handler is destroyed: the entry \<open>trigger-del\<close> erases and the
  command \<open>trigger\<close> replaces, both after their \<open>stop()\<close>, and the new command of
  \<open>trigger\<close> when it is not installed, which was never started. None of them has a
  joinable thread with a clear stop flag, so the destructor runs to its end each time;
  the handlers below leave these destructions out of the trace.
\<close>

definition emit :: "event list \<Rightarrow> world \<Rightarrow> world" where
  "emit es w = w\<lparr>trace := trace w @ es\<rparr>"

definition send_error_response :: "string \<Rightarrow> world \<Rightarrow> world" where
  "send_error_response msg w = emit [SendError msg] w"

definition send_and_dispose_response :: "json \<Rightarrow> world \<Rightarrow> world" where
  "send_and_dispose_response resp w = emit [SendResponse resp] w"

definition w_root_delref :: "world \<Rightarrow> world" where
  "w_root_delref w = emit [RootDelref] w"

definition w_state_save :: "world \<Rightarrow> world" where
  "w_state_save w = emit [StateSave] w"

subsection \<open>\<open>trigger-del\<close>\<close>

text \<open>
  \<open>cmd_trigger_delete\<close>. Under the write lock of the table it looks the name up and, when
  it is there, stops the command in place and erases the entry.
\<close>

definition cmd_trigger_delete :: "collab \<Rightarrow> json \<Rightarrow> world \<Rightarrow> world" where
  "cmd_trigger_delete ext args w =
     (if \<not> resolve_root_or_err ext args False then w
      else if json_array_size args \<noteq> 3
      then w_root_delref (send_error_response ''wrong number of arguments'' w)
      else
        let jname = json_array_elems args ! 2 in
        if \<not> json_is_string jname
        then w_root_delref
               (send_error_response ''expected 2nd parameter to be trigger name'' w)
        else
          let tname = json_string_value jname;
              w1 = emit [TriggersWLock] w;
              (res, w2) =
                (case triggers w1 tname of
                   None \<Rightarrow> (False, w1)
                 | Some c \<Rightarrow>
                     let (c', es) = stop c;
                         w1a = emit es (w1\<lparr>triggers := (triggers w1)(tname \<mapsto> c')\<rparr>)
                     in (True, w1a\<lparr>triggers := (triggers w1a)(tname := None)\<rparr>));
              w3 = emit [TriggersWUnlock] w2;
              w4 = (if res then w_state_save w3 else w3);
              resp = json_object_set
                       (json_object_set (JObject (make_response ext)) ''deleted''
                          (Some (json_boolean res)))
                       ''trigger'' (Some jname)
          in w_root_delref (send_and_dispose_response resp w4))"

subsection \<open>The legacy form of \<open>trigger\<close>\<close>

text \<open>\<open>printf("%d")\<close> of a number that is not negative.\<close>

function show_dec :: "nat \<Rightarrow> string" where
  "show_dec n =
     (if n < 10 then [''0123456789'' ! n]
      else show_dec (n div 10) @ [''0123456789'' ! (n mod 10)])"
  by pat_completeness auto
termination
  by (relation "measure (\<lambda>n. n)") auto

text \<open>
  The loop of \<open>build_legacy_trigger\<close> that copies the arguments from \<open>next_arg\<close> on into
  the command array: \<open>i\<close> counts up to \<open>n\<close>, and the first argument that is not a string
  ends it with an error.
\<close>

function legacy_command :: "json \<Rightarrow> nat \<Rightarrow> nat \<Rightarrow> nat \<Rightarrow> json list \<Rightarrow> string + json list" where
  "legacy_command args next_arg n i cmd =
     (if i < n then
        (let ele = json_array_elems args ! (i + next_arg) in
         if \<not> json_is_string ele
         then Inl (''expected argument '' @ show_dec i @ '' to be a string'')
         else legacy_command args next_arg n (i + 1) (cmd @ [ele]))
      else Inr cmd)"
  by pat_completeness auto
termination
  by (relation "measure (\<lambda>(args, next_arg, n, i, cmd). n - i)") auto

text \<open>
  \<open>build_legacy_trigger\<close>, called with at least three arguments (\<open>cmd_trigger\<close> has
  checked that). \<open>Inl\<close> is the message it sends to the client before it returns the null
  reference, \<open>Inr\<close> the definition it returns. The loop reads \<open>args.at(i + next_arg)\<close> only
  below the size of \<open>args\<close>, so \<open>at\<close> does not throw and the 32-bit counters \<open>i\<close> and
  \<open>next_arg\<close> do not wrap: they are natural numbers here.
\<close>

definition build_legacy_trigger :: "collab \<Rightarrow> json \<Rightarrow> string + json" where
  "build_legacy_trigger ext args =
     (let trig = json_object
                   [(''name'', Some (json_array_elems args ! 2)),
                    (''append_files'', Some JTrue),
                    (''stdin'', Some (JArray [JString ''name'', JString ''exists'',
                                              JString ''new'', JString ''size'',
                                              JString ''mode'']))]
      in case w_query_parse_legacy ext args 3 of
           Inl errmsg \<Rightarrow> Inl (''invalid rule spec: '' @ errmsg)
         | Inr (next_arg, expr) \<Rightarrow>
             let trig1 = json_object_set trig ''expression'' (get_default expr ''expression'')
             in
             if next_arg \<ge> json_array_size args then Inl ''no command was specified''
             else
               let n = json_array_size args - next_arg in
               (case legacy_command args next_arg n 0 [] of
                  Inl errmsg \<Rightarrow> Inl errmsg
                | Inr cmd \<Rightarrow> Inr (json_object_set trig1 ''command'' (Some (JArray cmd)))))"

subsection \<open>\<open>trigger\<close>\<close>

text \<open>
  The definition \<open>cmd_trigger\<close> works with: the third argument, or what
  \<open>build_legacy_trigger\<close> makes of the arguments when the third one is a string.
\<close>

definition trigger_definition :: "collab \<Rightarrow> json \<Rightarrow> string + json" where
  "trigger_definition ext args =
     (let trig = json_array_elems args ! 2 in
      if json_is_string trig then build_legacy_trigger ext args else Inr trig)"

text \<open>
  \<open>cmd_trigger\<close>. Every error is sent to the client and followed by the release of the
  root reference. With a command constructed, the write lock of the table is taken; an
  entry of that name with a \<open>json_equal\<close> definition is left alone, any other is stopped
  in place, the new command is started and moved into the slot. After the lock is
  released the tick is advanced under the root lock and the state is saved, unless the
  definition was the same.
\<close>

definition cmd_trigger :: "collab \<Rightarrow> json \<Rightarrow> world \<Rightarrow> world" where
  "cmd_trigger ext args w =
     (if \<not> resolve_root_or_err ext args True then w
      else if json_array_size args < 3
      then w_root_delref (send_error_response ''not enough arguments'' w)
      else
      (case trigger_definition ext args of
         Inl errmsg \<Rightarrow> w_root_delref (send_error_response errmsg w)
       | Inr trig \<Rightarrow>
      (case new_trigger_command ext (root_path w) trig of
         Inl errmsg \<Rightarrow> w_root_delref (send_error_response errmsg w)
       | Inr cmd \<Rightarrow>
      let resp = json_object_set (JObject (make_response ext)) ''triggerid''
                   (Some (JString (triggername cmd)));
          w1 = emit [TriggersWLock] w;
          old = triggers w1 (triggername cmd)
      in
      if (case old of None \<Rightarrow> False | Some prev \<Rightarrow> json_equal ext (defn cmd) (defn prev))
      then
        let resp1 = json_object_set resp ''disposition'' (Some (JString ''already_defined''));
            w2 = emit [TriggersWUnlock] w1
        in w_root_delref (send_and_dispose_response resp1 w2)
      else
        let resp1 = json_object_set resp ''disposition''
                      (Some (JString (if old \<noteq> None then ''replaced'' else ''created'')));
            w2 = (case old of
                    None \<Rightarrow> w1
                  | Some prev \<Rightarrow>
                      let (prev', es) = stop prev
                      in emit es (w1\<lparr>triggers := (triggers w1)(triggername cmd \<mapsto> prev')\<rparr>));
            (cmd', es) = start cmd;
            w3 = emit es w2;
            w4 = w3\<lparr>triggers := (triggers w3)(triggername cmd \<mapsto> cmd')\<rparr>;
            w5 = emit [TriggersWUnlock] w4;
            w6 = emit [RootLock ''trigger-add''] w5;
            w7 = w6\<lparr>ticks := ticks w6 + 1\<rparr>;
            w8 = emit [RootUnlock] w7;
            w9 = w_state_save w8
        in w_root_delref (send_and_dispose_response resp1 w9))))"

section \<open>VCS ignores: \<open>applyIgnoreVCSConfiguration\<close>\<close>

text \<open>
  Modelled from the spec: the ignore set is not in the sources. The spec has "a set of
  directory-prefix strings plus a subset flagged VCS-ignored". Here the set is the
  directories ignored completely and the directories registered as VCS directories.
\<close>

record watchman_ignore =
  ignore_dirs :: "string set"
  ignore_vcs :: "string set"

text \<open>
  Modelled from the spec: \<open>add(path, isVcsSubtree)\<close> "registers a prefix", among the VCS
  directories when the flag is set and among the completely ignored ones otherwise.
\<close>

definition ignore_add :: "string \<Rightarrow> bool \<Rightarrow> watchman_ignore \<Rightarrow> watchman_ignore" where
  "ignore_add path is_vcs_ignore ig =
     (if is_vcs_ignore then ig\<lparr>ignore_vcs := insert path (ignore_vcs ig)\<rparr>
      else ig\<lparr>ignore_dirs := insert path (ignore_dirs ig)\<rparr>)"

text \<open>
  Modelled from the spec: \<open>isIgnoreDir\<close> supports the full-ignore policy; the code asks it
  whether "we are completely ignoring this dir". It looks the path up among the
  completely ignored directories.
\<close>

definition isIgnoreDir :: "watchman_ignore \<Rightarrow> string \<Rightarrow> bool" where
  "isIgnoreDir ig path = (path \<in> ignore_dirs ig)"

text \<open>
  Modelled from the spec: \<open>w_string::pathCat\<close> is not in the sources; the spec speaks of
  the VCS directories "at the root". A path and a name are joined with a slash.
\<close>

definition pathCat :: "string \<Rightarrow> string \<Rightarrow> string" where
  "pathCat dir name = dir @ ''/'' @ name"

text \<open>
  The root as this function sees it: its path, its configuration, its ignore set and the
  directory of its cookies.
\<close>

record vcs_root = root_base +
  config :: "string \<rightharpoonup> json"
  ignore :: watchman_ignore
  cookieDir :: string

definition config_get_ignore_vcs :: "vcs_root \<Rightarrow> json_ref" where
  "config_get_ignore_vcs root =
     (case config root ''ignore_vcs'' of
        Some ignores \<Rightarrow> if \<not> json_is_array ignores then None else Some ignores
      | None \<Rightarrow> Some (JArray [JString ''.git'', JString ''.svn'', JString ''.hg'']))"

text \<open>
  The loop of \<open>applyIgnoreVCSConfiguration\<close>. Its counter \<open>i\<close> is a \<open>uint8_t\<close> and is
  compared with the size of the array, so it wraps from 255 to 0 and the loop may run
  for ever: the result is \<open>None\<close> when it does. When it ends, the result holds the message
  of the exception thrown, if one was, and the root as the loop left it. \<open>is_dir path\<close>
  says whether \<open>w_lstat\<close> succeeds on the path and finds a directory.
\<close>

partial_function (option) vcs_loop ::
  "(string \<Rightarrow> bool) \<Rightarrow> json list \<Rightarrow> 8 word \<Rightarrow> vcs_root \<Rightarrow> (string option \<times> vcs_root) option" where
  "vcs_loop is_dir ignores i root =
     (if unat i < length ignores then
        (let jignore = ignores ! unat i in
         if \<not> json_is_string jignore
         then Some (Some ''ignore_vcs must be an array of strings'', root)
         else
           let fullname = pathCat (root_path root) (json_string_value jignore) in
           if isIgnoreDir (ignore root) fullname
           then vcs_loop is_dir ignores (i + 1) root
           else
             let root1 = root\<lparr>ignore := ignore_add fullname True (ignore root)\<rparr>;
                 root2 = (if cookieDir root1 = root_path root1 \<and> is_dir fullname
                          then root1\<lparr>cookieDir := fullname\<rparr> else root1)
             in vcs_loop is_dir ignores (i + 1) root2)
      else Some (None, root))"

definition applyIgnoreVCSConfiguration ::
  "(string \<Rightarrow> bool) \<Rightarrow> vcs_root \<Rightarrow> (string option \<times> vcs_root) option" where
  "applyIgnoreVCSConfiguration is_dir root =
     (case config_get_ignore_vcs root of
        None \<Rightarrow> Some (Some ''ignore_vcs must be an array of strings'', root)
      | Some ignores \<Rightarrow> vcs_loop is_dir (json_array_elems ignores) 0 root)"

text \<open>
  One pass over a list of entries, by recursion on the list: what the loop computes when
  its counter does not wrap (lemma \<open>vcs_loop_short\<close> below).
\<close>

fun vcs_pass :: "(string \<Rightarrow> bool) \<Rightarrow> json list \<Rightarrow> vcs_root \<Rightarrow> string option \<times> vcs_root" where
  "vcs_pass is_dir [] root = (None, root)"
| "vcs_pass is_dir (jignore # rest) root =
     (if \<not> json_is_string jignore
      then (Some ''ignore_vcs must be an array of strings'', root)
      else
        let fullname = pathCat (root_path root) (json_string_value jignore) in
        if isIgnoreDir (ignore root) fullname then vcs_pass is_dir rest root
        else
          let root1 = root\<lparr>ignore := ignore_add fullname True (ignore root)\<rparr>;
              root2 = (if cookieDir root1 = root_path root1 \<and> is_dir fullname
                       then root1\<lparr>cookieDir := fullname\<rparr> else root1)
          in vcs_pass is_dir rest root2)"

text \<open>The VCS directories a root registers: those of the list it does not ignore completely.\<close>

definition vcs_registered :: "vcs_root \<Rightarrow> string list \<Rightarrow> string list" where
  "vcs_registered root names =
     filter (\<lambda>p. \<not> isIgnoreDir (ignore root) p) (map (pathCat (root_path root)) names)"

section \<open>The win32 watcher\<close>

text \<open>
  The error codes and wait results the read thread tells apart, and any other by its
  number. \<open>WAIT_OBJECT_0_plus_1\<close> is \<open>WAIT_OBJECT_0 + 1\<close>, the second handle (\<open>ping\<close>).
\<close>

datatype win_error = ERROR_INVALID_PARAMETER | ERROR_NOTIFY_ENUM_DIR | ERROR_OTHER nat

datatype wait_status = WAIT_OBJECT_0 | WAIT_OBJECT_0_plus_1 | WAIT_TIMEOUT | WAIT_OTHER nat

definition NETWORK_BUF_SIZE :: "32 word" where
  "NETWORK_BUF_SIZE = 64 * 1024"

text \<open>
  The root as the watcher sees it: the cancellation flag the loop tests, the failure
  reason \<open>start\<close> tests, and the recrawls requested of it.
\<close>

record watch_root = root_base +
  cancelled :: bool
  failure_reason :: "string option"
  recrawl_requests :: "string list"

text \<open>
  Modelled from the spec: \<open>watchman_root::cancel\<close> is not in the sources. The spec gives
  the root "a cancellation flag" and has cancellation set it and wake the blocked
  waits. \<open>cancel\<close> sets the flag; it leaves \<open>failure_reason\<close> alone, which nothing in the
  sources assigns.
\<close>

definition cancel :: "watch_root \<Rightarrow> watch_root" where
  "cancel root = root\<lparr>cancelled := True\<rparr>"

text \<open>
  Modelled from the spec: \<open>scheduleRecrawl\<close> is not in the sources; the spec has the
  thread "request a full recrawl of the root". The request is recorded with its reason.
\<close>

definition scheduleRecrawl :: "string \<Rightarrow> watch_root \<Rightarrow> watch_root" where
  "scheduleRecrawl why root = root\<lparr>recrawl_requests := recrawl_requests root @ [why]\<rparr>"

text \<open>
  What the read thread does that \<open>start\<close> or the system sees, in order: a read request
  issued with a buffer size or failed with an error, a notification of the condition
  variable, and the buffer size cut down.
\<close>

datatype watch_event =
    ReadIssued "32 word"
  | ReadFailed win_error
  | CondNotify
  | Shrunk

text \<open>
  The state of the read thread: the size it asks reads for (\<open>size\<close> in the sources),
  whether the next pass issues a read, the root, the queue of changed items it shares
  with the consumer, and its log.
\<close>

record reader =
  size_dw :: "32 word"
  initiate_read :: bool
  wroot :: watch_root
  changedItems :: "string list"
  wlog :: "watch_event list"

text \<open>
  What the system answers during one pass of the loop: whether another thread has
  cancelled the root by the time the loop tests the flag, the error of
  \<open>ReadDirectoryChangesW\<close> if the pass issues a read and it fails, the result of the
  wait, and what \<open>GetOverlappedResult\<close> gives: an error, or the file names of the
  notifications in the buffer.
\<close>

record pass_input =
  other_cancel :: bool
  read_error :: "win_error option"
  wait_result :: wait_status
  overlapped :: "win_error + string list"

datatype flow = Continue | Break

text \<open>
  The start of \<open>readChangesThread\<close>, run with the mutex held: the first read, and the
  notification that follows it when it succeeded. The boolean says whether the thread
  goes on to its loop.
\<close>

definition thread_init :: "win_error option \<Rightarrow> reader \<Rightarrow> bool \<times> reader" where
  "thread_init first_read st =
     (case first_read of
        Some err \<Rightarrow>
          (False, st\<lparr>wroot := cancel (wroot st), wlog := wlog st @ [ReadFailed err]\<rparr>)
      | None \<Rightarrow>
          (True, st\<lparr>initiate_read := False,
                    wlog := wlog st @ [ReadIssued (size_dw st), CondNotify]\<rparr>))"

text \<open>The body of the \<open>while\<close> loop, once the cancellation flag was found clear.\<close>

definition loop_body :: "(string \<Rightarrow> bool) \<Rightarrow> pass_input \<Rightarrow> reader \<Rightarrow> flow \<times> reader" where
  "loop_body isIgnored inp st =
     (let (fl, st1) =
            (if initiate_read st then
               (case read_error inp of
                  Some err \<Rightarrow>
                    (Break, st\<lparr>wroot := cancel (wroot st),
                               wlog := wlog st @ [ReadFailed err]\<rparr>)
                | None \<Rightarrow>
                    (Continue, st\<lparr>initiate_read := False,
                                  wlog := wlog st @ [ReadIssued (size_dw st)]\<rparr>))
             else (Continue, st))
      in
      if fl = Break then (Break, st1)
      else
        (case wait_result inp of
           WAIT_OBJECT_0 \<Rightarrow>
             (case overlapped inp of
                Inl err \<Rightarrow>
                  if err = ERROR_INVALID_PARAMETER \<and> size_dw st1 > NETWORK_BUF_SIZE
                  then (Continue, st1\<lparr>size_dw := NETWORK_BUF_SIZE, initiate_read := True,
                                       wlog := wlog st1 @ [Shrunk]\<rparr>)
                  else if err = ERROR_NOTIFY_ENUM_DIR
                  then (Continue,
                        st1\<lparr>wroot := scheduleRecrawl ''ERROR_NOTIFY_ENUM_DIR'' (wroot st1)\<rparr>)
                  else (Break, st1\<lparr>wroot := cancel (wroot st1)\<rparr>)
              | Inr names \<Rightarrow>
                  let items = filter (\<lambda>full. \<not> isIgnored full)
                                (map (pathCat (root_path (wroot st1))) names)
                  in (Continue,
                      st1\<lparr>initiate_read := True,
                          changedItems := changedItems st1 @ items,
                          wlog := wlog st1 @ (if items \<noteq> [] then [CondNotify] else [])\<rparr>))
         | WAIT_OBJECT_0_plus_1 \<Rightarrow> (Break, st1)
         | WAIT_TIMEOUT \<Rightarrow> (Continue, st1)
         | WAIT_OTHER n \<Rightarrow> (Break, st1)))"

text \<open>
  The loop over the answers of the system, one per pass. The boolean says whether the
  loop has ended; with the answers used up and the loop not ended, the thread is still
  waiting.
\<close>

fun thread_loop :: "(string \<Rightarrow> bool) \<Rightarrow> pass_input list \<Rightarrow> reader \<Rightarrow> bool \<times> reader" where
  "thread_loop isIgnored [] st = (False, st)"
| "thread_loop isIgnored (inp # inps) st =
     (if cancelled (wroot st) then (True, st)
      else if other_cancel inp then (True, st\<lparr>wroot := cancel (wroot st)\<rparr>)
      else
        (case loop_body isIgnored inp st of
           (Break, st') \<Rightarrow> (True, st')
         | (Continue, st') \<Rightarrow> thread_loop isIgnored inps st'))"

definition readChangesThread ::
  "(string \<Rightarrow> bool) \<Rightarrow> win_error option \<Rightarrow> pass_input list \<Rightarrow> reader \<Rightarrow> bool \<times> reader" where
  "readChangesThread isIgnored first_read inps st =
     (case thread_init first_read st of
        (False, st') \<Rightarrow> (True, st')
      | (True, st') \<Rightarrow> thread_loop isIgnored inps st')"

text \<open>
  \<open>start\<close>. It takes the mutex, creates the thread and waits on the condition variable
  for at most ten seconds, which releases the mutex to the thread; the thread's start
  runs under the mutex, so what \<open>start\<close> sees when it wakes is the reader after
  \<open>thread_init\<close>. When the thread function returns, the wrapper that runs it notifies
  the condition variable once more. \<open>start\<close> cancels the root and fails when the wait
  times out, fails when the root holds a failure reason, and otherwise succeeds; it also
  fails when the thread cannot be created. A wake-up without a notification is not
  modelled.
\<close>

record start_input =
  thread_created :: bool
  notified_in_time :: bool

definition watcher_start :: "start_input \<Rightarrow> win_error option \<Rightarrow> reader \<Rightarrow> bool \<times> reader" where
  "watcher_start env first_read st =
     (if \<not> thread_created env then (False, st)
      else if \<not> notified_in_time env then (False, st\<lparr>wroot := cancel (wroot st)\<rparr>)
      else
        let (running, st1) = thread_init first_read st;
            st2 = (if running then st1 else st1\<lparr>wlog := wlog st1 @ [CondNotify]\<rparr>)
        in (failure_reason (wroot st2) = None, st2))"

text \<open>Whether every notification of a log comes after a read request that was issued.\<close>

fun notify_after_read :: "bool \<Rightarrow> watch_event list \<Rightarrow> bool" where
  "notify_after_read issued [] = True"
| "notify_after_read issued (ReadIssued n # es) = notify_after_read True es"
| "notify_after_read issued (CondNotify # es) = (issued \<and> notify_after_read issued es)"
| "notify_after_read issued (e # es) = notify_after_read issued es"

section \<open>Reading a trace\<close>

text \<open>
  What the properties below read off a trace: the responses and the errors sent to the
  client, the events a handler added, whether the state was saved, whether a response
  holds a value under a key, whether a thread was joined while the write lock of the
  trigger table was held, and whether the lock has one scope: taken at most once, and
  only when it has not been taken before, released when held and not left held, with the
  flag, wake-up, join, subscribe and thread-start events inside that one scope and
  everything else outside it.
\<close>

datatype lock_phase = NotTaken | Held | Released

fun responses :: "event list \<Rightarrow> json list" where
  "responses [] = []"
| "responses (SendResponse r # es) = r # responses es"
| "responses (e # es) = responses es"

fun errors :: "event list \<Rightarrow> string list" where
  "errors [] = []"
| "errors (SendError m # es) = m # errors es"
| "errors (e # es) = errors es"

definition new_events :: "world \<Rightarrow> world \<Rightarrow> event list" where
  "new_events w w' = drop (length (trace w)) (trace w')"

definition saved :: "event list \<Rightarrow> bool" where
  "saved es = (StateSave \<in> set es)"

definition reports :: "string \<Rightarrow> json \<Rightarrow> event list \<Rightarrow> bool" where
  "reports key v es = list_ex (\<lambda>r. get_default r key = Some v) (responses es)"


fun lock_scope :: "lock_phase \<Rightarrow> event list \<Rightarrow> bool" where
  "lock_scope ph [] = (ph \<noteq> Held)"
| "lock_scope ph (TriggersWLock # es) = (ph = NotTaken \<and> lock_scope Held es)"
| "lock_scope ph (TriggersWUnlock # es) = (ph = Held \<and> lock_scope Released es)"
| "lock_scope ph (SetStopFlag n # es) = (ph = Held \<and> lock_scope ph es)"
| "lock_scope ph (EventSetPing n # es) = (ph = Held \<and> lock_scope ph es)"
| "lock_scope ph (ThreadJoin n # es) = (ph = Held \<and> lock_scope ph es)"
| "lock_scope ph (Subscribe n # es) = (ph = Held \<and> lock_scope ph es)"
| "lock_scope ph (ThreadStart n # es) = (ph = Held \<and> lock_scope ph es)"
| "lock_scope ph (e # es) = (ph \<noteq> Held \<and> lock_scope ph es)"

section \<open>Sample collaborators and inputs\<close>

text \<open>
  Stand-ins for the collaborators, to run the handlers on concrete input: a platform with
  the open flags of Linux, a root resolver that finds every root, a query parser that
  accepts every document, a legacy parser that takes the arguments up to \<open>--\<close> as
  patterns, a field-list parser that accepts every list, and equality of documents for
  \<open>json_equal\<close>.
\<close>

definition demo_platform :: platform where
  "demo_platform = \<lparr>win32 = False, O_CREAT = 0x40, O_CLOEXEC = 0x80000, O_WRONLY = 1,
                     O_APPEND = 0x400, O_TRUNC = 0x200\<rparr>"

definition demo_collab :: collab where
  "demo_collab =
     \<lparr>plat = demo_platform,
      resolve_root_or_err = (\<lambda>args create. True),
      w_query_parse = (\<lambda>j. Inr \<lparr>query_def = j, dedup_results = False, fieldList = []\<rparr>),
      w_query_parse_legacy =
        (\<lambda>args start.
           let pats = takeWhile (\<lambda>j. j \<noteq> JString ''--'') (drop start (json_array_elems args))
           in Inr (start + length pats + 1,
                   JObject [(''expression'', JArray (JString ''anyof'' # pats))])),
      parse_field_list = (\<lambda>j. Inr (map json_string_value (json_array_elems j))),
      json_equal = (\<lambda>a b. a = b),
      make_response = [(''version'', JString ''4.9.0'')],
      w_envp_make_ht = [(''PATH'', ''/bin'')],
      get_sock_name = ''/tmp/sock''\<rparr>"

definition demo_trig_a :: json where
  "demo_trig_a = JObject [(''name'', JString ''build''),
                          (''expression'', JArray [JString ''true'']),
                          (''command'', JArray [JString ''make''])]"

definition demo_trig_b :: json where
  "demo_trig_b = JObject [(''name'', JString ''build''),
                          (''expression'', JArray [JString ''true'']),
                          (''command'', JArray [JString ''make'', JString ''all''])]"

definition demo_cmd :: "json \<Rightarrow> json \<Rightarrow> trigger_command" where
  "demo_cmd trig cmd =
     \<lparr>defn = trig,
      query = \<lparr>query_def = JObject [(''expression'', JArray [JString ''true''])],
               dedup_results = False, fieldList = []\<rparr>,
      triggername = ''build'',
      command = cmd,
      envht = [(''PATH'', ''/bin''), (''WATCHMAN_ROOT'', ''/repo''),
               (''WATCHMAN_SOCK'', ''/tmp/sock''), (''WATCHMAN_TRIGGER'', ''build'')],
      append_files = False,
      stdin_style = input_dev_null,
      max_files_stdin = 0,
      stdout_flags = 0,
      stderr_flags = 0,
      stdout_name = None,
      stderr_name = None,
      stopTrigger = False,
      thread_joinable = False\<rparr>"

definition demo_world :: "(string \<rightharpoonup> trigger_command) \<Rightarrow> world" where
  "demo_world table = \<lparr>root_path = ''/repo'', triggers = table, ticks = 1, trace = []\<rparr>"

definition demo_vcs_root :: "(string \<rightharpoonup> json) \<Rightarrow> vcs_root" where
  "demo_vcs_root cfg =
     \<lparr>root_path = ''/repo'', config = cfg,
      ignore = \<lparr>ignore_dirs = {''/repo/.svn''}, ignore_vcs = {}\<rparr>,
      cookieDir = ''/repo''\<rparr>"

definition demo_reader :: "32 word \<Rightarrow> reader" where
  "demo_reader n =
     \<lparr>size_dw = n, initiate_read = True,
      wroot = \<lparr>root_path = ''/repo'', cancelled = False, failure_reason = None,
               recrawl_requests = []\<rparr>,
      changedItems = [], wlog = []\<rparr>"

section \<open>Invalid trigger definitions\<close>

text \<open>
  The ways a trigger definition can be invalid, read off the checks of the constructor:
  a name that is missing or not a string; a command that is missing, not an array or
  empty; a \<open>stdin\<close> that is neither an array nor one of the two strings the constructor
  knows; a negative \<open>max_files_stdin\<close>; and a \<open>stdout\<close> or \<open>stderr\<close> string that does not
  start with \<open>>\<close>, or that starts with \<open>>>\<close> on Windows.
\<close>

definition bad_redirection :: "platform \<Rightarrow> string option \<Rightarrow> bool" where
  "bad_redirection pf name =
     (case name of
        None \<Rightarrow> False
      | Some s \<Rightarrow> c_at s 0 \<noteq> CHR ''>'' \<or> (win32 pf \<and> c_at s 1 = CHR ''>''))"

definition invalid_definition :: "platform \<Rightarrow> json \<Rightarrow> bool" where
  "invalid_definition pf trig =
     ((case get_default trig ''name'' of None \<Rightarrow> True | Some n \<Rightarrow> \<not> json_is_string n)
      \<or> (case get_default trig ''command'' of
            None \<Rightarrow> True
          | Some c \<Rightarrow> \<not> json_is_array c \<or> json_array_size c = 0)
      \<or> (case get_default trig ''stdin'' of
            None \<Rightarrow> False
          | Some e \<Rightarrow> \<not> json_is_array e \<and>
                     (\<not> json_is_string e
                      \<or> json_string_value e \<notin> {''/dev/null'', ''NAME_PER_LINE''}))
      \<or> json_integer_value (get_default_or trig ''max_files_stdin'' (JInteger 0)) < 0
      \<or> bad_redirection pf (json_unpack_string trig ''stdout'')
      \<or> bad_redirection pf (json_unpack_string trig ''stderr''))"

section \<open>Properties of redirection parsing\<close>

lemma parse_redirection_null: "parse_redirection pf None flags label = Inr (None, flags)"
  by (simp add: parse_redirection_def)

lemma parse_redirection_truncate:
  "c_at rest 0 \<noteq> CHR ''>'' \<Longrightarrow>
   parse_redirection pf (Some (CHR ''>'' # rest)) flags label =
     Inr (Some rest, O_CREAT pf OR O_CLOEXEC pf OR O_WRONLY pf OR O_TRUNC pf)"
  by (simp add: parse_redirection_def c_at_def split: if_splits)

lemma parse_redirection_append:
  "parse_redirection pf (Some (CHR ''>'' # CHR ''>'' # rest)) flags label =
     (if win32 pf then Inl ''Windows does not support O_APPEND''
      else Inr (Some rest, O_CREAT pf OR O_CLOEXEC pf OR O_WRONLY pf OR O_APPEND pf))"
  by (simp add: parse_redirection_def c_at_def)

lemma parse_redirection_no_prefix:
  "c_at name 0 \<noteq> CHR ''>'' \<Longrightarrow>
   parse_redirection pf (Some name) flags label =
     Inl (label @ '': must be prefixed with either > or >>, got '' @ name)"
  by (simp add: parse_redirection_def)

text \<open>
  C3. \<open>">out.log"\<close> gives the truncating flags \<open>O_CREAT|O_CLOEXEC|O_WRONLY|O_TRUNC\<close> and
  the file name \<open>out.log\<close>; \<open>">>out.log"\<close> gives the appending flags
  \<open>O_CREAT|O_CLOEXEC|O_WRONLY|O_APPEND\<close> and the same file name, except on Windows, where
  it is an error; \<open>"out.log"\<close> is an error; and a null specification succeeds and sets no
  flag (the flags stay 0, the value the constructor gave them).
\<close>

theorem parse_redirection_examples:
  "parse_redirection pf (Some ''>out.log'') 0 label =
     Inr (Some ''out.log'', O_CREAT pf OR O_CLOEXEC pf OR O_WRONLY pf OR O_TRUNC pf)
   \<and> parse_redirection pf (Some ''>>out.log'') 0 label =
     (if win32 pf then Inl ''Windows does not support O_APPEND''
      else Inr (Some ''out.log'', O_CREAT pf OR O_CLOEXEC pf OR O_WRONLY pf OR O_APPEND pf))
   \<and> parse_redirection pf (Some ''out.log'') 0 label =
     Inl (label @ '': must be prefixed with either > or >>, got out.log'')
   \<and> parse_redirection pf None 0 label = Inr (None, 0)"
  by (simp add: parse_redirection_def c_at_def)

theorem parse_redirection_examples_witness:
  "parse_redirection demo_platform (Some ''>out.log'') 0 ''stdout'' =
     Inr (Some ''out.log'', 0x80241)
   \<and> parse_redirection demo_platform (Some ''>>out.log'') 0 ''stdout'' =
     Inr (Some ''out.log'', 0x80441)
   \<and> parse_redirection (demo_platform\<lparr>win32 := True\<rparr>) (Some ''>>out.log'') 0 ''stdout'' =
     Inl ''Windows does not support O_APPEND''
   \<and> parse_redirection demo_platform (Some ''out.log'') 0 ''stdout'' =
     Inl ''stdout: must be prefixed with either > or >>, got out.log''
   \<and> parse_redirection demo_platform None 0 ''stdout'' = Inr (None, 0)"
  using parse_redirection_examples [of demo_platform "''stdout''"]
    parse_redirection_examples [of "demo_platform\<lparr>win32 := True\<rparr>" "''stdout''"]
  by (simp add: demo_platform_def)

section \<open>Properties of the trigger handlers\<close>

subsection \<open>Objects, traces and the thread lifecycle\<close>

lemma map_of_set_entry:
  "map_of (set_entry k v kvs) k' = (if k' = k then Some v else map_of kvs k')"
  by (induction kvs) auto

lemma new_events_emit [simp]: "new_events w (w\<lparr>trace := trace w @ es\<rparr>) = es"
  by (simp add: new_events_def)

lemma new_events_table_emit [simp]:
  "new_events w (w\<lparr>triggers := t, trace := trace w @ es\<rparr>) = es"
  by (simp add: new_events_def)

lemma new_events_table_ticks_emit [simp]:
  "new_events w (w\<lparr>triggers := t, ticks := k, trace := trace w @ es\<rparr>) = es"
  by (simp add: new_events_def)

lemma new_events_self [simp]: "new_events w w = []"
  by (simp add: new_events_def)

lemmas world_ops = emit_def send_error_response_def send_and_dispose_response_def
  w_root_delref_def w_state_save_def

lemma stop_flags: "stopTrigger (fst (stop c)) \<and> \<not> thread_joinable (fst (stop c))"
  by (simp add: stop_def Let_def)

lemma stop_events:
  "snd (stop c) =
     (if thread_joinable c
      then [SetStopFlag (triggername c), EventSetPing (triggername c), ThreadJoin (triggername c)]
      else [SetStopFlag (triggername c)])"
  by (simp add: stop_def Let_def)

lemma responses_stop [simp]: "responses (snd (stop c) @ es) = responses es"
  by (simp add: stop_events)

lemma saved_stop [simp]: "StateSave \<notin> set (snd (stop c))"
  by (simp add: stop_events)

lemma start_events:
  "snd (start c) = [Subscribe (triggername c), ThreadStart (triggername c)]"
  by (simp add: start_def)

lemma demo_ctor_a:
  "new_trigger_command demo_collab ''/repo'' demo_trig_a =
     Inr (demo_cmd demo_trig_a (JArray [JString ''make'']))"
  by (simp add: new_trigger_command_def demo_collab_def demo_trig_a_def demo_cmd_def
      queryDef_of_def json_object_def get_default_or_def json_unpack_string_def
      parse_redirection_def json_array_size_def stdin_property_def)

lemma demo_ctor_b:
  "new_trigger_command demo_collab ''/repo'' demo_trig_b =
     Inr (demo_cmd demo_trig_b (JArray [JString ''make'', JString ''all'']))"
  by (simp add: new_trigger_command_def demo_collab_def demo_trig_b_def demo_cmd_def
      queryDef_of_def json_object_def get_default_or_def json_unpack_string_def
      parse_redirection_def json_array_size_def stdin_property_def)

subsection \<open>\<open>trigger-del\<close>\<close>

lemma del_absent:
  assumes "resolve_root_or_err ext args False" and "args = JArray [a0, a1, JString name]"
    and "triggers w name = None"
  shows "cmd_trigger_delete ext args w =
     w\<lparr>trace := trace w @ [TriggersWLock, TriggersWUnlock,
        SendResponse (json_object_set
                       (json_object_set (JObject (make_response ext)) ''deleted''
                          (Some JFalse))
                       ''trigger'' (Some (JString name))), RootDelref]\<rparr>"
  using assms
  by (simp add: cmd_trigger_delete_def json_array_size_def world_ops Let_def json_boolean_def)

lemma del_present:
  assumes "resolve_root_or_err ext args False" and "args = JArray [a0, a1, JString name]"
    and "triggers w name = Some c"
  shows "cmd_trigger_delete ext args w =
     w\<lparr>triggers := (triggers w)(name := None),
       trace := trace w @ [TriggersWLock] @ snd (stop c) @ [TriggersWUnlock, StateSave,
        SendResponse (json_object_set
                       (json_object_set (JObject (make_response ext)) ''deleted''
                          (Some JTrue))
                       ''trigger'' (Some (JString name))), RootDelref]\<rparr>"
  using assms
  by (simp add: cmd_trigger_delete_def json_array_size_def world_ops Let_def json_boolean_def
      case_prod_unfold)

lemma del_save_iff:
  "saved (new_events w (cmd_trigger_delete ext args w)) =
   reports ''deleted'' JTrue (new_events w (cmd_trigger_delete ext args w))"
  by (simp add: cmd_trigger_delete_def json_array_size_def world_ops Let_def saved_def
      reports_def map_of_set_entry json_boolean_def case_prod_unfold
      split: option.splits)

lemma del_false_no_save:
  "reports ''deleted'' JFalse (new_events w (cmd_trigger_delete ext args w)) \<longrightarrow>
     \<not> saved (new_events w (cmd_trigger_delete ext args w))"
  by (simp add: cmd_trigger_delete_def json_array_size_def world_ops Let_def saved_def
      reports_def map_of_set_entry json_boolean_def case_prod_unfold split: option.splits)

text \<open>
  C2. \<open>trigger-del <root> <name>\<close> on a root that resolves. When the table has no trigger
  of that name, the handler takes and releases the lock, sends a response with
  \<open>deleted: false\<close> and saves nothing. When it has one, the handler stops it under the
  lock (flag set, and a joinable thread woken and joined, so that it is not joinable
  afterwards), erases the entry, saves the state and sends \<open>deleted: true\<close>. For every
  call, well-formed or not, the state is saved exactly when a response with
  \<open>deleted: true\<close> is sent.
\<close>

theorem cmd_trigger_delete_spec:
  "(resolve_root_or_err ext args False \<and> args = JArray [a0, a1, JString name] \<longrightarrow>
      (triggers w name = None \<longrightarrow>
         cmd_trigger_delete ext args w =
           w\<lparr>trace := trace w @
                [TriggersWLock, TriggersWUnlock,
                 SendResponse (json_object_set
                   (json_object_set (JObject (make_response ext)) ''deleted'' (Some JFalse))
                   ''trigger'' (Some (JString name))),
                 RootDelref]\<rparr>)
    \<and> (\<forall>c. triggers w name = Some c \<longrightarrow>
         cmd_trigger_delete ext args w =
           w\<lparr>triggers := (triggers w)(name := None),
             trace := trace w @ [TriggersWLock] @ snd (stop c) @
                [TriggersWUnlock, StateSave,
                 SendResponse (json_object_set
                   (json_object_set (JObject (make_response ext)) ''deleted'' (Some JTrue))
                   ''trigger'' (Some (JString name))),
                 RootDelref]\<rparr>
         \<and> stopTrigger (fst (stop c)) \<and> \<not> thread_joinable (fst (stop c))
         \<and> (thread_joinable c \<longrightarrow> ThreadJoin (triggername c) \<in> set (snd (stop c)))))
   \<and> (saved (new_events w (cmd_trigger_delete ext args w)) \<longleftrightarrow>
        reports ''deleted'' JTrue (new_events w (cmd_trigger_delete ext args w)))
   \<and> (reports ''deleted'' JFalse (new_events w (cmd_trigger_delete ext args w)) \<longrightarrow>
        \<not> saved (new_events w (cmd_trigger_delete ext args w)))"
  using del_save_iff [of w ext args] del_false_no_save [of w ext args]
  by (auto simp: del_absent del_present stop_flags stop_events)

theorem cmd_trigger_delete_spec_witness:
  "cmd_trigger_delete demo_collab
     (JArray [JString ''trigger-del'', JString ''/repo'', JString ''build''])
     (demo_world Map.empty) =
   (demo_world Map.empty)\<lparr>trace :=
      [TriggersWLock, TriggersWUnlock,
       SendResponse (JObject [(''version'', JString ''4.9.0''), (''deleted'', JFalse),
                              (''trigger'', JString ''build'')]),
       RootDelref]\<rparr>
   \<and> cmd_trigger_delete demo_collab
     (JArray [JString ''trigger-del'', JString ''/repo'', JString ''build''])
     (demo_world [''build'' \<mapsto> fst (start (demo_cmd demo_trig_a (JArray [JString ''make''])))]) =
   (demo_world Map.empty)\<lparr>trace :=
      [TriggersWLock, SetStopFlag ''build'', EventSetPing ''build'', ThreadJoin ''build'',
       TriggersWUnlock, StateSave,
       SendResponse (JObject [(''version'', JString ''4.9.0''), (''deleted'', JTrue),
                              (''trigger'', JString ''build'')]),
       RootDelref]\<rparr>"
  using cmd_trigger_delete_spec [of demo_collab
      "JArray [JString ''trigger-del'', JString ''/repo'', JString ''build'']"
      "JString ''trigger-del''" "JString ''/repo''" "''build''" "demo_world Map.empty"]
    cmd_trigger_delete_spec [of demo_collab
      "JArray [JString ''trigger-del'', JString ''/repo'', JString ''build'']"
      "JString ''trigger-del''" "JString ''/repo''" "''build''"
      "demo_world [''build'' \<mapsto> fst (start (demo_cmd demo_trig_a (JArray [JString ''make''])))]"]
  by (simp add: demo_collab_def demo_world_def stop_events start_def demo_cmd_def)

subsection \<open>\<open>trigger\<close>: redefinition\<close>

lemma trig_same:
  assumes "resolve_root_or_err ext args True" and "3 \<le> json_array_size args"
    and "trigger_definition ext args = Inr trig"
    and "new_trigger_command ext (root_path w) trig = Inr cmd"
    and "triggers w (triggername cmd) = Some prev"
    and "json_equal ext (defn cmd) (defn prev)"
  shows "cmd_trigger ext args w =
     w\<lparr>trace := trace w @
        [TriggersWLock, TriggersWUnlock,
         SendResponse (json_object_set
           (json_object_set (JObject (make_response ext)) ''triggerid''
              (Some (JString (triggername cmd))))
           ''disposition'' (Some (JString ''already_defined''))),
         RootDelref]\<rparr>"
  using assms by (simp add: cmd_trigger_def world_ops Let_def)

lemma trig_replaced:
  assumes "resolve_root_or_err ext args True" and "3 \<le> json_array_size args"
    and "trigger_definition ext args = Inr trig"
    and "new_trigger_command ext (root_path w) trig = Inr cmd"
    and "triggers w (triggername cmd) = Some prev"
    and "\<not> json_equal ext (defn cmd) (defn prev)"
  shows "cmd_trigger ext args w =
     w\<lparr>triggers := (triggers w)(triggername cmd \<mapsto> fst (start cmd)),
       ticks := ticks w + 1,
       trace := trace w @ [TriggersWLock] @ snd (stop prev) @
        [Subscribe (triggername cmd), ThreadStart (triggername cmd),
         TriggersWUnlock, RootLock ''trigger-add'', RootUnlock, StateSave,
         SendResponse (json_object_set
           (json_object_set (JObject (make_response ext)) ''triggerid''
              (Some (JString (triggername cmd))))
           ''disposition'' (Some (JString ''replaced''))),
         RootDelref]\<rparr>"
  using assms by (simp add: cmd_trigger_def world_ops Let_def case_prod_unfold start_def)

lemma trig_created:
  assumes "resolve_root_or_err ext args True" and "3 \<le> json_array_size args"
    and "trigger_definition ext args = Inr trig"
    and "new_trigger_command ext (root_path w) trig = Inr cmd"
    and "triggers w (triggername cmd) = None"
  shows "cmd_trigger ext args w =
     w\<lparr>triggers := (triggers w)(triggername cmd \<mapsto> fst (start cmd)),
       ticks := ticks w + 1,
       trace := trace w @
        [TriggersWLock, Subscribe (triggername cmd), ThreadStart (triggername cmd),
         TriggersWUnlock, RootLock ''trigger-add'', RootUnlock, StateSave,
         SendResponse (json_object_set
           (json_object_set (JObject (make_response ext)) ''triggerid''
              (Some (JString (triggername cmd))))
           ''disposition'' (Some (JString ''created''))),
         RootDelref]\<rparr>"
  using assms by (simp add: cmd_trigger_def world_ops Let_def case_prod_unfold start_def)

text \<open>
  C1. \<open>trigger\<close> with a definition that constructs a command \<open>cmd\<close>, on a root that
  resolves. When the table has a trigger of that name whose definition is \<open>json_equal\<close>
  to the new one, the handler only takes and releases the lock and answers
  \<open>already_defined\<close>: the table and the tick stay as they were, nothing is stopped and
  nothing is saved. When the definitions differ, the old command is stopped under the
  lock (a joinable thread is woken and joined) before the new one subscribes and starts;
  the new command takes the slot, the tick is advanced by one, the state is saved and
  the answer is \<open>replaced\<close>. With no trigger of that name the same happens without the
  stop, and the answer is \<open>created\<close>.
\<close>

theorem cmd_trigger_redefinition:
  assumes "resolve_root_or_err ext args True" and "3 \<le> json_array_size args"
    and "trigger_definition ext args = Inr trig"
    and "new_trigger_command ext (root_path w) trig = Inr cmd"
  shows
   "(\<forall>prev. triggers w (triggername cmd) = Some prev \<and> json_equal ext (defn cmd) (defn prev) \<longrightarrow>
       cmd_trigger ext args w =
         w\<lparr>trace := trace w @
            [TriggersWLock, TriggersWUnlock,
             SendResponse (json_object_set
               (json_object_set (JObject (make_response ext)) ''triggerid''
                  (Some (JString (triggername cmd))))
               ''disposition'' (Some (JString ''already_defined''))),
             RootDelref]\<rparr>)
    \<and> (\<forall>prev. triggers w (triggername cmd) = Some prev
               \<and> \<not> json_equal ext (defn cmd) (defn prev) \<longrightarrow>
       cmd_trigger ext args w =
         w\<lparr>triggers := (triggers w)(triggername cmd \<mapsto> fst (start cmd)),
           ticks := ticks w + 1,
           trace := trace w @ [TriggersWLock] @ snd (stop prev) @
            [Subscribe (triggername cmd), ThreadStart (triggername cmd),
             TriggersWUnlock, RootLock ''trigger-add'', RootUnlock, StateSave,
             SendResponse (json_object_set
               (json_object_set (JObject (make_response ext)) ''triggerid''
                  (Some (JString (triggername cmd))))
               ''disposition'' (Some (JString ''replaced''))),
             RootDelref]\<rparr>
       \<and> (thread_joinable prev \<longrightarrow>
            snd (stop prev) = [SetStopFlag (triggername prev), EventSetPing (triggername prev),
                               ThreadJoin (triggername prev)]))
    \<and> (triggers w (triggername cmd) = None \<longrightarrow>
       cmd_trigger ext args w =
         w\<lparr>triggers := (triggers w)(triggername cmd \<mapsto> fst (start cmd)),
           ticks := ticks w + 1,
           trace := trace w @
            [TriggersWLock, Subscribe (triggername cmd), ThreadStart (triggername cmd),
             TriggersWUnlock, RootLock ''trigger-add'', RootUnlock, StateSave,
             SendResponse (json_object_set
               (json_object_set (JObject (make_response ext)) ''triggerid''
                  (Some (JString (triggername cmd))))
               ''disposition'' (Some (JString ''created''))),
             RootDelref]\<rparr>)"
  using trig_same [OF assms] trig_replaced [OF assms] trig_created [OF assms]
  by (simp add: stop_events)

lemma demo_definition_a:
  "trigger_definition demo_collab (JArray [JString ''trigger'', JString ''/repo'', demo_trig_a])
     = Inr demo_trig_a"
  by (simp add: trigger_definition_def demo_trig_a_def)

lemma demo_definition_b:
  "trigger_definition demo_collab (JArray [JString ''trigger'', JString ''/repo'', demo_trig_b])
     = Inr demo_trig_b"
  by (simp add: trigger_definition_def demo_trig_b_def)

theorem cmd_trigger_redefinition_witness:
  "cmd_trigger demo_collab (JArray [JString ''trigger'', JString ''/repo'', demo_trig_a])
     (demo_world [''build'' \<mapsto> fst (start (demo_cmd demo_trig_a (JArray [JString ''make''])))]) =
   (demo_world [''build'' \<mapsto> fst (start (demo_cmd demo_trig_a (JArray [JString ''make''])))])
     \<lparr>trace :=
        [TriggersWLock, TriggersWUnlock,
         SendResponse (JObject [(''version'', JString ''4.9.0''), (''triggerid'', JString ''build''),
                                (''disposition'', JString ''already_defined'')]),
         RootDelref]\<rparr>
   \<and> cmd_trigger demo_collab (JArray [JString ''trigger'', JString ''/repo'', demo_trig_b])
     (demo_world [''build'' \<mapsto> fst (start (demo_cmd demo_trig_a (JArray [JString ''make''])))]) =
   (demo_world [''build'' \<mapsto>
        fst (start (demo_cmd demo_trig_b (JArray [JString ''make'', JString ''all''])))])
     \<lparr>ticks := 2,
      trace :=
        [TriggersWLock, SetStopFlag ''build'', EventSetPing ''build'', ThreadJoin ''build'',
         Subscribe ''build'', ThreadStart ''build'',
         TriggersWUnlock, RootLock ''trigger-add'', RootUnlock, StateSave,
         SendResponse (JObject [(''version'', JString ''4.9.0''), (''triggerid'', JString ''build''),
                                (''disposition'', JString ''replaced'')]),
         RootDelref]\<rparr>"
proof -
  let ?w = "demo_world [''build'' \<mapsto> fst (start (demo_cmd demo_trig_a (JArray [JString ''make''])))]"
  have r: "resolve_root_or_err demo_collab args True" for args
    by (simp add: demo_collab_def)
  have n: "3 \<le> json_array_size (JArray [JString ''trigger'', JString ''/repo'', t])" for t
    by (simp add: json_array_size_def)
  have ca: "new_trigger_command demo_collab (root_path ?w) demo_trig_a =
      Inr (demo_cmd demo_trig_a (JArray [JString ''make'']))"
    by (simp add: demo_world_def demo_ctor_a)
  have cb: "new_trigger_command demo_collab (root_path ?w) demo_trig_b =
      Inr (demo_cmd demo_trig_b (JArray [JString ''make'', JString ''all'']))"
    by (simp add: demo_world_def demo_ctor_b)
  have neq: "demo_trig_b \<noteq> demo_trig_a"
    by (simp add: demo_trig_a_def demo_trig_b_def)
  show ?thesis
    using cmd_trigger_redefinition [OF r n demo_definition_a ca]
      cmd_trigger_redefinition [OF r n demo_definition_b cb] neq
    by (simp add: demo_collab_def demo_world_def stop_events start_def demo_cmd_def)
qed

subsection \<open>What the constructor accepts\<close>

lemma ctor_success:
  assumes "new_trigger_command ext rp trig = Inr c"
  shows "\<not> thread_joinable c \<and> \<not> stopTrigger c \<and> defn c = trig
     \<and> get_default trig ''name'' = Some (JString (triggername c))
     \<and> get_default trig ''command'' = Some (command c)
     \<and> json_is_array (command c) \<and> json_array_size (command c) \<noteq> 0
     \<and> (case get_default trig ''stdin'' of
           None \<Rightarrow> True
         | Some e \<Rightarrow> json_is_array e
                    \<or> json_is_string e \<and> json_string_value e \<in> {''/dev/null'', ''NAME_PER_LINE''})
     \<and> 0 \<le> json_integer_value (get_default_or trig ''max_files_stdin'' (JInteger 0))
     \<and> parse_redirection (plat ext) (json_unpack_string trig ''stdout'') 0 ''stdout''
           = Inr (stdout_name c, stdout_flags c)
     \<and> parse_redirection (plat ext) (json_unpack_string trig ''stderr'') 0 ''stderr''
           = Inr (stderr_name c, stderr_flags c)"
proof -
  from assms obtain q0 where q0: "w_query_parse ext (queryDef_of trig) = Inr q0"
    by (cases "w_query_parse ext (queryDef_of trig)") (simp_all add: new_trigger_command_def)
  from assms q0 obtain name where n: "get_default trig ''name'' = Some name"
    by (cases "get_default trig ''name''") (simp_all add: new_trigger_command_def)
  from assms q0 n have ns: "json_is_string name"
    by (cases "json_is_string name") (simp_all add: new_trigger_command_def)
  then obtain s where s: "name = JString s" by (cases name) auto
  from assms q0 n ns obtain cmd where c: "get_default trig ''command'' = Some cmd"
    by (cases "get_default trig ''command''") (simp_all add: new_trigger_command_def)
  from assms q0 n ns c have ca: "json_is_array cmd \<and> json_array_size cmd \<noteq> 0"
    by (cases "json_is_array cmd \<and> json_array_size cmd \<noteq> 0")
       (auto simp add: new_trigger_command_def)
  let ?q1 = "if json_is_true (get_default_or trig ''append_files'' JFalse)
             then q0\<lparr>dedup_results := True\<rparr> else q0"
  from assms q0 n ns c ca obtain style q2 where
      st: "stdin_property ext trig ?q1 = Inr (style, q2)"
    by (cases "stdin_property ext trig ?q1")
       (auto simp add: new_trigger_command_def Let_def)
  from assms q0 n ns c ca st
  have iv: "0 \<le> json_integer_value (get_default_or trig ''max_files_stdin'' (JInteger 0))"
    by (cases "0 \<le> json_integer_value (get_default_or trig ''max_files_stdin'' (JInteger 0))")
       (auto simp add: new_trigger_command_def Let_def)
  from assms q0 n ns c ca st iv obtain on ofl where
      so: "parse_redirection (plat ext) (json_unpack_string trig ''stdout'') 0 ''stdout''
             = Inr (on, ofl)"
    by (cases "parse_redirection (plat ext) (json_unpack_string trig ''stdout'') 0 ''stdout''")
       (auto simp add: new_trigger_command_def Let_def)
  from assms q0 n ns c ca st iv so obtain en efl where
      se: "parse_redirection (plat ext) (json_unpack_string trig ''stderr'') 0 ''stderr''
             = Inr (en, efl)"
    by (cases "parse_redirection (plat ext) (json_unpack_string trig ''stderr'') 0 ''stderr''")
       (auto simp add: new_trigger_command_def Let_def)
  have sv: "case get_default trig ''stdin'' of
           None \<Rightarrow> True
         | Some e \<Rightarrow> json_is_array e
                    \<or> json_is_string e \<and> json_string_value e \<in> {''/dev/null'', ''NAME_PER_LINE''}"
    using st by (auto simp: stdin_property_def Let_def split: option.splits if_splits)
  from assms q0 n ns c ca st iv so se s sv show ?thesis
    by (auto simp add: new_trigger_command_def Let_def)
qed

lemma bad_redirection_Inl:
  "bad_redirection pf name \<Longrightarrow> \<exists>msg. parse_redirection pf name flags label = Inl msg"
  by (auto simp: bad_redirection_def parse_redirection_def split: option.splits)

lemma ctor_invalid:
  assumes "invalid_definition (plat ext) trig"
  shows "\<exists>msg. new_trigger_command ext rp trig = Inl msg"
proof (cases "new_trigger_command ext rp trig")
  case (Inl msg)
  then show ?thesis by blast
next
  case (Inr c)
  note ok = ctor_success [OF Inr]
  from assms consider
      (name) "case get_default trig ''name'' of None \<Rightarrow> True | Some n \<Rightarrow> \<not> json_is_string n"
    | (cmd) "case get_default trig ''command'' of
               None \<Rightarrow> True | Some c \<Rightarrow> \<not> json_is_array c \<or> json_array_size c = 0"
    | (stdin) "case get_default trig ''stdin'' of
            None \<Rightarrow> False
          | Some e \<Rightarrow> \<not> json_is_array e \<and>
                     (\<not> json_is_string e
                      \<or> json_string_value e \<notin> {''/dev/null'', ''NAME_PER_LINE''})"
    | (maxf) "json_integer_value (get_default_or trig ''max_files_stdin'' (JInteger 0)) < 0"
    | (out) "bad_redirection (plat ext) (json_unpack_string trig ''stdout'')"
    | (err) "bad_redirection (plat ext) (json_unpack_string trig ''stderr'')"
    unfolding invalid_definition_def by blast
  then have False
  proof cases
    case name
    with ok show False by simp
  next
    case cmd
    with ok show False by simp
  next
    case stdin
    with ok show False by (auto split: option.splits)
  next
    case maxf
    with ok show False by simp
  next
    case out
    from bad_redirection_Inl [OF this, of 0 "''stdout''"] ok show False by auto
  next
    case err
    from bad_redirection_Inl [OF this, of 0 "''stderr''"] ok show False by auto
  qed
  then show ?thesis ..
qed

lemma cmd_trigger_error:
  assumes "errors (new_events w (cmd_trigger ext args w)) \<noteq> []"
  shows "\<exists>msg. cmd_trigger ext args w = w\<lparr>trace := trace w @ [SendError msg, RootDelref]\<rparr>"
  using assms
  by (auto simp: cmd_trigger_def world_ops Let_def case_prod_unfold stop_events start_def
      split: sum.splits option.splits if_splits)

lemma cmd_trigger_ctor_error:
  assumes "resolve_root_or_err ext args True" and "3 \<le> json_array_size args"
    and "trigger_definition ext args = Inr trig"
    and "new_trigger_command ext (root_path w) trig = Inl msg"
  shows "cmd_trigger ext args w = w\<lparr>trace := trace w @ [SendError msg, RootDelref]\<rparr>"
  using assms by (simp add: cmd_trigger_def world_ops)

lemma cmd_trigger_invalid_definition:
  assumes "resolve_root_or_err ext args True" and "3 \<le> json_array_size args"
    and "trigger_definition ext args = Inr trig"
    and "invalid_definition (plat ext) trig"
  shows "\<exists>msg. cmd_trigger ext args w = w\<lparr>trace := trace w @ [SendError msg, RootDelref]\<rparr>"
  using ctor_invalid [OF assms(4), of "root_path w"] cmd_trigger_ctor_error [OF assms(1-3)]
  by blast

subsection \<open>The destructor\<close>

text \<open>
  C8. The destructor of a command whose thread was started and not stopped ends the
  process; the destructor of a command that was only constructed, or whose \<open>stop()\<close> has
  returned, runs to its end. In general the destructor is fatal exactly for a joinable
  thread with a clear stop flag, and never after \<open>stop()\<close>.
\<close>

theorem dtor_fatal_iff_running:
  assumes "new_trigger_command ext rp trig = Inr c"
  shows "dtor c = Destroyed
     \<and> dtor (fst (start c)) = FatalAbort
     \<and> dtor (fst (stop (fst (start c)))) = Destroyed
     \<and> (\<forall>c'. dtor (fst (stop c')) = Destroyed)
     \<and> (\<forall>c'. \<not> thread_joinable c' \<longrightarrow> dtor c' = Destroyed)
     \<and> (\<forall>c'. thread_joinable c' \<and> \<not> stopTrigger c' \<longrightarrow> dtor c' = FatalAbort)"
  using ctor_success [OF assms] by (simp add: dtor_def start_def stop_def Let_def)

theorem dtor_fatal_iff_running_witness:
  "new_trigger_command demo_collab ''/repo'' demo_trig_a =
     Inr (demo_cmd demo_trig_a (JArray [JString ''make'']))
   \<and> dtor (demo_cmd demo_trig_a (JArray [JString ''make''])) = Destroyed
   \<and> dtor (fst (start (demo_cmd demo_trig_a (JArray [JString ''make''])))) = FatalAbort
   \<and> dtor (fst (stop (fst (start (demo_cmd demo_trig_a (JArray [JString ''make'']))))))
       = Destroyed"
  using dtor_fatal_iff_running [OF demo_ctor_a] demo_ctor_a by simp

subsection \<open>The scope of the table lock\<close>

lemma lock_scope_stop [simp]: "lock_scope Held (snd (stop c) @ es) = lock_scope Held es"
  by (simp add: stop_events)




lemma lock_count_stop [simp]:
  "count_list (snd (stop c)) TriggersWLock = 0 \<and> count_list (snd (stop c)) TriggersWUnlock = 0"
  by (simp add: stop_events)






subsection \<open>The legacy form\<close>

lemma legacy_command_Inr:
  assumes "legacy_command args next_arg n i acc = Inr cmd"
    and "i \<le> n" and "n + next_arg \<le> json_array_size args"
  shows "cmd = acc @ take (n - i) (drop (i + next_arg) (json_array_elems args))
     \<and> list_all json_is_string (take (n - i) (drop (i + next_arg) (json_array_elems args)))"
  using assms
proof (induction args next_arg n i acc rule: legacy_command.induct)
  case (1 args next_arg n i acc)
  show ?case
  proof (cases "i < n")
    case False
    with "1.prems" show ?thesis by simp
  next
    case True
    let ?ele = "json_array_elems args ! (i + next_arg)"
    from True "1.prems" have str: "json_is_string ?ele"
      by (auto simp: Let_def split: if_splits)
    with True "1.prems" have rec: "legacy_command args next_arg n (i + 1) (acc @ [?ele]) = Inr cmd"
      by (simp add: Let_def)
    from True "1.prems" have len: "i + next_arg < length (json_array_elems args)"
      by (simp add: json_array_size_def)
    have step: "take (n - i) (drop (i + next_arg) (json_array_elems args)) =
        ?ele # take (n - (i + 1)) (drop (i + 1 + next_arg) (json_array_elems args))"
      using True len
      by (metis Cons_nth_drop_Suc Suc_diff_Suc Suc_eq_plus1 add_Suc take_Suc_Cons)
    from "1.IH" [OF True refl] str rec True "1.prems"
    have "cmd = (acc @ [?ele]) @ take (n - (i + 1)) (drop (i + 1 + next_arg) (json_array_elems args))
       \<and> list_all json_is_string (take (n - (i + 1)) (drop (i + 1 + next_arg) (json_array_elems args)))"
      by simp
    with step str show ?thesis by simp
  qed
qed

lemma legacy_command_all_strings:
  assumes "list_all json_is_string (take (n - i) (drop (i + next_arg) (json_array_elems args)))"
    and "i \<le> n" and "n + next_arg \<le> json_array_size args"
  shows "legacy_command args next_arg n i acc =
           Inr (acc @ take (n - i) (drop (i + next_arg) (json_array_elems args)))"
  using assms
proof (induction args next_arg n i acc rule: legacy_command.induct)
  case (1 args next_arg n i acc)
  show ?case
  proof (cases "i < n")
    case False
    then show ?thesis by simp
  next
    case True
    let ?ele = "json_array_elems args ! (i + next_arg)"
    from True "1.prems" have len: "i + next_arg < length (json_array_elems args)"
      by (simp add: json_array_size_def)
    have step: "take (n - i) (drop (i + next_arg) (json_array_elems args)) =
        ?ele # take (n - (i + 1)) (drop (i + 1 + next_arg) (json_array_elems args))"
      using True len
      by (metis Cons_nth_drop_Suc Suc_diff_Suc Suc_eq_plus1 add_Suc take_Suc_Cons)
    from "1.prems" step have str: "json_is_string ?ele"
      and rest: "list_all json_is_string
          (take (n - (i + 1)) (drop (i + 1 + next_arg) (json_array_elems args)))"
      by simp_all
    from "1.IH" [OF True refl] str rest True "1.prems"
    have "legacy_command args next_arg n (i + 1) (acc @ [?ele]) =
        Inr ((acc @ [?ele]) @ take (n - (i + 1)) (drop (i + 1 + next_arg) (json_array_elems args)))"
      by simp
    with True str step show ?thesis by (simp add: Let_def)
  qed
qed

lemma legacy_trig_fields:
  "get_default (json_object [(''name'', Some nm), (''append_files'', Some JTrue), (''stdin'', Some sd)]) k
     = (if k = ''stdin'' then Some sd else if k = ''append_files'' then Some JTrue
        else if k = ''name'' then Some nm else None)"
  by (simp add: json_object_def)

lemma json_object_is_object:
  "\<exists>kvs. json_object [(''name'', Some nm), (''append_files'', Some JTrue), (''stdin'', Some sd)] = JObject kvs"
  by (simp add: json_object_def)

lemma get_default_set_other:
  "k' \<noteq> k \<Longrightarrow> get_default (json_object_set j k v) k' = get_default j k'"
  by (cases j; cases v) (simp_all add: map_of_set_entry)

lemma get_default_set_same:
  "get_default (json_object_set (JObject kvs) k (Some v)) k = Some v"
  by (simp add: map_of_set_entry)

lemma json_object_set_is_object:
  "\<exists>kvs'. json_object_set (JObject kvs) k v = JObject kvs'"
  by (cases v) simp_all

text \<open>
  C10. A legacy \<open>trigger\<close> whose patterns parse, with \<open>next_arg\<close> the index of the first
  argument after them. With no argument left, \<open>build_legacy_trigger\<close> fails with "no
  command was specified" (and \<open>cmd_trigger\<close> sends that error and leaves the table, the
  tick and the saved state alone). A definition it returns has the third argument as
  its name, \<open>append_files\<close> true, the \<open>stdin\<close> field list \<open>name, exists, new, size, mode\<close>
  and as its command all arguments from \<open>next_arg\<close> on, every one a string. It returns a
  definition when all those arguments are strings and an error when one is not.
\<close>

theorem build_legacy_trigger_spec:
  assumes "w_query_parse_legacy ext args 3 = Inr (next_arg, expr)"
  shows "(json_array_size args \<le> next_arg \<longrightarrow>
            build_legacy_trigger ext args = Inl ''no command was specified'')
     \<and> (\<forall>trig. build_legacy_trigger ext args = Inr trig \<longrightarrow>
            next_arg < json_array_size args
          \<and> get_default trig ''name'' = Some (json_array_elems args ! 2)
          \<and> get_default trig ''append_files'' = Some JTrue
          \<and> get_default trig ''stdin'' =
              Some (JArray [JString ''name'', JString ''exists'', JString ''new'',
                            JString ''size'', JString ''mode''])
          \<and> get_default trig ''command'' = Some (JArray (drop next_arg (json_array_elems args)))
          \<and> list_all json_is_string (drop next_arg (json_array_elems args)))
     \<and> (next_arg < json_array_size args
          \<and> list_all json_is_string (drop next_arg (json_array_elems args)) \<longrightarrow>
            (\<exists>trig. build_legacy_trigger ext args = Inr trig))
     \<and> (next_arg < json_array_size args
          \<and> \<not> list_all json_is_string (drop next_arg (json_array_elems args)) \<longrightarrow>
            (\<exists>msg. build_legacy_trigger ext args = Inl msg))
     \<and> (resolve_root_or_err ext args True \<and> 3 \<le> json_array_size args
          \<and> json_is_string (json_array_elems args ! 2)
          \<and> json_array_size args \<le> next_arg \<longrightarrow>
            cmd_trigger ext args w =
              w\<lparr>trace := trace w @ [SendError ''no command was specified'', RootDelref]\<rparr>)"
proof -
  let ?n = "json_array_size args - next_arg"
  let ?rest = "drop next_arg (json_array_elems args)"
  let ?trig0 = "json_object
                   [(''name'', Some (json_array_elems args ! 2)),
                    (''append_files'', Some JTrue),
                    (''stdin'', Some (JArray [JString ''name'', JString ''exists'',
                                              JString ''new'', JString ''size'',
                                              JString ''mode'']))]"
  let ?trig1 = "json_object_set ?trig0 ''expression'' (get_default expr ''expression'')"
  have tk: "take ?n ?rest = ?rest"
    by (simp add: json_array_size_def)
  obtain kvs0 where o0: "?trig0 = JObject kvs0"
    using json_object_is_object by blast
  then obtain kvs1 where o1: "?trig1 = JObject kvs1"
    using json_object_set_is_object [of kvs0] by auto
  have none: "json_array_size args \<le> next_arg \<Longrightarrow>
      build_legacy_trigger ext args = Inl ''no command was specified''"
    using assms by (simp add: build_legacy_trigger_def Let_def)
  have unfold: "next_arg < json_array_size args \<Longrightarrow>
      build_legacy_trigger ext args =
        (case legacy_command args next_arg ?n 0 [] of
           Inl errmsg \<Rightarrow> Inl errmsg
         | Inr cmd \<Rightarrow> Inr (json_object_set ?trig1 ''command'' (Some (JArray cmd))))"
    using assms by (simp add: build_legacy_trigger_def Let_def)
  have built: "next_arg < json_array_size args
          \<and> get_default trig ''name'' = Some (json_array_elems args ! 2)
          \<and> get_default trig ''append_files'' = Some JTrue
          \<and> get_default trig ''stdin'' =
              Some (JArray [JString ''name'', JString ''exists'', JString ''new'',
                            JString ''size'', JString ''mode''])
          \<and> get_default trig ''command'' = Some (JArray ?rest)
          \<and> list_all json_is_string ?rest"
    if b: "build_legacy_trigger ext args = Inr trig" for trig
  proof -
    from b none have lt: "next_arg < json_array_size args"
      by (cases "next_arg < json_array_size args") auto
    from b unfold [OF lt] obtain cmd where
        lc: "legacy_command args next_arg ?n 0 [] = Inr cmd"
        and t: "trig = json_object_set ?trig1 ''command'' (Some (JArray cmd))"
      by (auto split: sum.splits)
    from legacy_command_Inr [OF lc] lt tk
    have cmd: "cmd = ?rest" and strs: "list_all json_is_string ?rest"
      by simp_all
    have "get_default trig ''command'' = Some (JArray ?rest)"
      using t o1 cmd by (simp add: map_of_set_entry)
    moreover have "get_default trig k = get_default ?trig0 k"
      if "k \<noteq> ''command''" "k \<noteq> ''expression''" for k
      using t that by (simp add: get_default_set_other)
    ultimately show ?thesis
      using lt strs by (simp add: legacy_trig_fields)
  qed
  have ok: "\<exists>trig. build_legacy_trigger ext args = Inr trig"
    if "next_arg < json_array_size args" "list_all json_is_string ?rest"
    using that unfold [OF that(1)] legacy_command_all_strings [of ?n 0 next_arg args "[]"] tk
    by simp
  have bad: "\<exists>msg. build_legacy_trigger ext args = Inl msg"
    if lt: "next_arg < json_array_size args" and ns: "\<not> list_all json_is_string ?rest"
  proof (cases "legacy_command args next_arg ?n 0 []")
    case (Inl msg)
    with unfold [OF lt] show ?thesis by simp
  next
    case (Inr cmd)
    from legacy_command_Inr [OF Inr] lt tk ns show ?thesis by simp
  qed
  have nocmd: "cmd_trigger ext args w =
      w\<lparr>trace := trace w @ [SendError ''no command was specified'', RootDelref]\<rparr>"
    if "resolve_root_or_err ext args True" "3 \<le> json_array_size args"
      "json_is_string (json_array_elems args ! 2)" "json_array_size args \<le> next_arg"
    using that none by (simp add: cmd_trigger_def trigger_definition_def world_ops)
  from none built ok bad nocmd show ?thesis by blast
qed

theorem build_legacy_trigger_spec_witness:
  "(\<exists>trig. build_legacy_trigger demo_collab
        (JArray [JString ''trigger'', JString ''/repo'', JString ''build'', JString ''*.c'',
                 JString ''--'', JString ''make'', JString ''all'']) = Inr trig
      \<and> get_default trig ''name'' = Some (JString ''build'')
      \<and> get_default trig ''append_files'' = Some JTrue
      \<and> get_default trig ''stdin'' =
           Some (JArray [JString ''name'', JString ''exists'', JString ''new'',
                         JString ''size'', JString ''mode''])
      \<and> get_default trig ''command'' = Some (JArray [JString ''make'', JString ''all'']))
   \<and> cmd_trigger demo_collab
        (JArray [JString ''trigger'', JString ''/repo'', JString ''build'', JString ''*.c''])
        (demo_world Map.empty) =
      (demo_world Map.empty)
        \<lparr>trace := [SendError ''no command was specified'', RootDelref]\<rparr>"
proof -
  let ?args = "JArray [JString ''trigger'', JString ''/repo'', JString ''build'', JString ''*.c'',
                 JString ''--'', JString ''make'', JString ''all'']"
  let ?short = "JArray [JString ''trigger'', JString ''/repo'', JString ''build'', JString ''*.c'']"
  have p: "w_query_parse_legacy demo_collab ?args 3 =
      Inr (5, JObject [(''expression'', JArray [JString ''anyof'', JString ''*.c''])])"
    by (simp add: demo_collab_def)
  have q: "w_query_parse_legacy demo_collab ?short 3 =
      Inr (5, JObject [(''expression'', JArray [JString ''anyof'', JString ''*.c''])])"
    by (simp add: demo_collab_def)
  have r: "resolve_root_or_err demo_collab ?short True"
    by (simp add: demo_collab_def)
  from build_legacy_trigger_spec [OF p, of "demo_world Map.empty"]
  have first: "\<exists>trig. build_legacy_trigger demo_collab ?args = Inr trig
      \<and> get_default trig ''name'' = Some (JString ''build'')
      \<and> get_default trig ''append_files'' = Some JTrue
      \<and> get_default trig ''stdin'' =
           Some (JArray [JString ''name'', JString ''exists'', JString ''new'',
                         JString ''size'', JString ''mode''])
      \<and> get_default trig ''command'' = Some (JArray [JString ''make'', JString ''all''])"
    by (simp add: json_array_size_def) blast
  from build_legacy_trigger_spec [OF q, of "demo_world Map.empty"] r
  have second: "cmd_trigger demo_collab ?short (demo_world Map.empty) =
      (demo_world Map.empty)
        \<lparr>trace := [SendError ''no command was specified'', RootDelref]\<rparr>"
    by (simp add: json_array_size_def demo_world_def)
  from first second show ?thesis by blast
qed

section \<open>Properties of the VCS ignore configuration\<close>

lemma vcs_loop_short:
  assumes "length xs \<le> 255" and "k \<le> length xs"
  shows "vcs_loop is_dir xs (of_nat k) root = Some (vcs_pass is_dir (drop k xs) root)"
  using assms
proof (induction "length xs - k" arbitrary: k root)
  case 0
  then have k: "k = length xs" by simp
  with "0.prems" have "unat (of_nat k :: 8 word) = k"
    by (simp add: unat_of_nat)
  with k show ?case
    by (subst vcs_loop.simps) simp
next
  case (Suc d)
  then have lt: "k < length xs" by simp
  with Suc.prems have u: "unat (of_nat k :: 8 word) = k"
    by (simp add: unat_of_nat)
  from lt have dr: "drop k xs = xs ! k # drop (Suc k) xs"
    by (simp add: Cons_nth_drop_Suc)
  from Suc.hyps(2) lt have d: "d = length xs - Suc k" by simp
  from lt have le: "Suc k \<le> length xs" by simp
  have ih: "vcs_loop is_dir xs (of_nat k + 1) r = Some (vcs_pass is_dir (drop (Suc k) xs) r)" for r
    using Suc.hyps(1) [OF d Suc.prems(1) le, of r] by (simp add: add.commute)
  show ?case
    by (subst vcs_loop.simps) (simp add: u lt dr ih Let_def)
qed

lemma pathCat_neq [simp]: "pathCat dir name \<noteq> dir"
  by (simp add: pathCat_def)

lemma vcs_registered_Cons:
  "vcs_registered root (n # ns) =
     (if isIgnoreDir (ignore root) (pathCat (root_path root) n) then vcs_registered root ns
      else pathCat (root_path root) n # vcs_registered root ns)"
  by (simp add: vcs_registered_def)

lemma vcs_registered_cong:
  "root_path r' = root_path r \<Longrightarrow> ignore_dirs (ignore r') = ignore_dirs (ignore r) \<Longrightarrow>
   vcs_registered r' ns = vcs_registered r ns"
  by (simp add: vcs_registered_def isIgnoreDir_def)

lemma vcs_registered_neq_root: "p \<in> set (vcs_registered root ns) \<Longrightarrow> p \<noteq> root_path root"
  by (auto simp: vcs_registered_def)

lemma find_neq_root:
  "find is_dir (vcs_registered root ns) = Some d \<Longrightarrow> d \<noteq> root_path root"
  by (auto simp: find_Some_iff dest!: vcs_registered_neq_root [of _ root ns] nth_mem)

lemma vcs_pass_strings:
  "vcs_pass is_dir (map JString names) root =
     (None,
      root\<lparr>ignore := (ignore root)\<lparr>ignore_vcs :=
               ignore_vcs (ignore root) \<union> set (vcs_registered root names)\<rparr>,
           cookieDir :=
             (if cookieDir root = root_path root
              then (case find is_dir (vcs_registered root names) of
                      Some d \<Rightarrow> d | None \<Rightarrow> cookieDir root)
              else cookieDir root)\<rparr>)"
proof (induction names arbitrary: root)
  case Nil
  then show ?case by (simp add: vcs_registered_def)
next
  case (Cons n ns)
  let ?full = "pathCat (root_path root) n"
  show ?case
  proof (cases "isIgnoreDir (ignore root) ?full")
    case True
    then show ?thesis
      by (simp add: Cons.IH vcs_registered_Cons)
  next
    case False
    let ?r1 = "root\<lparr>ignore := ignore_add ?full True (ignore root)\<rparr>"
    let ?r2 = "if cookieDir ?r1 = root_path ?r1 \<and> is_dir ?full
               then ?r1\<lparr>cookieDir := ?full\<rparr> else ?r1"
    have reg: "vcs_registered ?r2 ns = vcs_registered root ns"
      by (rule vcs_registered_cong) (simp_all add: ignore_add_def)
    have step: "vcs_pass is_dir (map JString (n # ns)) root = vcs_pass is_dir (map JString ns) ?r2"
      using False by (simp add: Let_def)
    show ?thesis
      unfolding step Cons.IH [of ?r2] reg
      using False
      by (auto simp: vcs_registered_Cons ignore_add_def split: option.splits
          dest: find_neq_root)
  qed
qed


text \<open>
  C6. With no \<open>ignore_vcs\<close> in the configuration, applying the VCS configuration returns
  without an error and registers, as VCS ignores, exactly those of \<open>.git\<close>, \<open>.svn\<close> and
  \<open>.hg\<close> under the root path that the root does not ignore completely; nothing else of
  the ignore set changes. The cookie directory changes only if it was the root path
  itself, and then to the first registered directory, in that order, that is a directory
  on disk; with no such directory it stays.
\<close>

theorem applyIgnoreVCS_default:
  assumes "config root ''ignore_vcs'' = None"
  shows "applyIgnoreVCSConfiguration is_dir root =
     Some (None,
       root\<lparr>ignore := (ignore root)\<lparr>ignore_vcs :=
                ignore_vcs (ignore root)
                \<union> set (vcs_registered root [''.git'', ''.svn'', ''.hg''])\<rparr>,
            cookieDir :=
              (if cookieDir root = root_path root
               then (case find is_dir (vcs_registered root [''.git'', ''.svn'', ''.hg'']) of
                       Some d \<Rightarrow> d | None \<Rightarrow> cookieDir root)
               else cookieDir root)\<rparr>)
   \<and> vcs_registered root [''.git'', ''.svn'', ''.hg''] =
       filter (\<lambda>p. p \<notin> ignore_dirs (ignore root))
         [root_path root @ ''/.git'', root_path root @ ''/.svn'', root_path root @ ''/.hg'']"
proof -
  have "applyIgnoreVCSConfiguration is_dir root =
      vcs_loop is_dir (map JString [''.git'', ''.svn'', ''.hg'']) (of_nat 0) root"
    using assms by (simp add: applyIgnoreVCSConfiguration_def config_get_ignore_vcs_def)
  also have "\<dots> = Some (vcs_pass is_dir (map JString [''.git'', ''.svn'', ''.hg'']) root)"
    by (subst vcs_loop_short) simp_all
  finally show ?thesis
    by (simp only: vcs_pass_strings) (simp add: vcs_registered_def isIgnoreDir_def pathCat_def)
qed

theorem applyIgnoreVCS_default_witness:
  "applyIgnoreVCSConfiguration (\<lambda>p. p = ''/repo/.hg'' \<or> p = ''/repo/.svn'')
     (demo_vcs_root Map.empty) =
   Some (None,
     \<lparr>root_path = ''/repo'', config = Map.empty,
      ignore = \<lparr>ignore_dirs = {''/repo/.svn''},
                ignore_vcs = {''/repo/.git'', ''/repo/.hg''}\<rparr>,
      cookieDir = ''/repo/.hg''\<rparr>)"
proof -
  have c: "config (demo_vcs_root Map.empty) ''ignore_vcs'' = None"
    by (simp add: demo_vcs_root_def)
  show ?thesis
    using applyIgnoreVCS_default [OF c, of "\<lambda>p. p = ''/repo/.hg'' \<or> p = ''/repo/.svn''"]
    by (auto simp add: demo_vcs_root_def)
qed

subsection \<open>Invalid \<open>ignore_vcs\<close> configurations\<close>

lemma vcs_pass_error:
  "\<not> list_all json_is_string xs \<Longrightarrow>
   fst (vcs_pass is_dir xs root) = Some ''ignore_vcs must be an array of strings''"
  by (induction xs arbitrary: root) (auto simp: Let_def)

lemma ignore_vcs_invalid_reported:
  assumes "config root ''ignore_vcs'' = Some j"
    and "\<not> json_is_array j
         \<or> json_array_size j \<le> 255 \<and> \<not> list_all json_is_string (json_array_elems j)"
  shows "\<exists>root'. applyIgnoreVCSConfiguration is_dir root =
           Some (Some ''ignore_vcs must be an array of strings'', root')"
proof (cases "json_is_array j")
  case False
  with assms(1) show ?thesis
    by (simp add: applyIgnoreVCSConfiguration_def config_get_ignore_vcs_def)
next
  case True
  with assms(2) have short: "length (json_array_elems j) \<le> 255"
    and bad: "\<not> list_all json_is_string (json_array_elems j)"
    by (simp_all add: json_array_size_def)
  from True assms(1) have "applyIgnoreVCSConfiguration is_dir root =
      vcs_loop is_dir (json_array_elems j) (of_nat 0) root"
    by (simp add: applyIgnoreVCSConfiguration_def config_get_ignore_vcs_def)
  also have "\<dots> = Some (vcs_pass is_dir (json_array_elems j) root)"
    using short by (subst vcs_loop_short) simp_all
  finally show ?thesis
    using vcs_pass_error [OF bad, of is_dir root]
    by (cases "vcs_pass is_dir (json_array_elems j) root") auto
qed

lemma vcs_loop_wraps:
  assumes "256 \<le> length xs" and "\<forall>k<256. json_is_string (xs ! k)"
  shows "vcs_loop is_dir xs i root = None"
proof (rule ccontr)
  assume "vcs_loop is_dir xs i root \<noteq> None"
  then obtain y where s: "vcs_loop is_dir xs i root = Some y" by auto
  have "\<not> (256 \<le> length xs \<and> (\<forall>k<256. json_is_string (xs ! k)))"
    apply (rule vcs_loop.raw_induct
        [where P = "\<lambda>d ign j r z. \<not> (256 \<le> length ign \<and> (\<forall>k<256. json_is_string (ign ! k)))",
         OF _ s])
    subgoal premises prems for f d ign j r z
    proof
      assume a: "256 \<le> length ign \<and> (\<forall>k<256. json_is_string (ign ! k))"
      have "unat j < 256" using unsigned_less [of j, where ?'a = nat] by simp
      with a have lt: "unat j < length ign" and str: "json_is_string (ign ! unat j)"
        by auto
      from prems(2) lt str obtain r' where "f d ign (j + 1) r' = Some z"
        by (auto simp: Let_def split: if_splits)
      from prems(1) [OF this] a show False by blast
    qed
    done
  with assms show False by blast
qed

text \<open>
  C7, at an array whose first non-string entry is past index 255: the 8-bit counter of
  the loop wraps to 0 before it gets there, the loop goes round the first 256 entries
  for ever, and no error is reported. (For a value that is not an array, and for an
  array of at most 255 entries that holds a non-string, the error is reported: lemma
  \<open>ignore_vcs_invalid_reported\<close>. An invalid trigger definition is answered with an
  error and changes nothing: lemma \<open>cmd_trigger_invalid_definition\<close>.)
\<close>

theorem ignore_vcs_counter_wraps:
  "applyIgnoreVCSConfiguration (\<lambda>p. False)
     (demo_vcs_root [''ignore_vcs'' \<mapsto> JArray (replicate 256 (JString ''.git'') @ [JInteger 1])])
   = None"
proof -
  have "vcs_loop (\<lambda>p. False) (replicate 256 (JString ''.git'') @ [JInteger 1]) 0
      (demo_vcs_root [''ignore_vcs'' \<mapsto> JArray (replicate 256 (JString ''.git'') @ [JInteger 1])])
      = None"
    by (rule vcs_loop_wraps) (simp_all add: nth_append)
  then show ?thesis
    by (simp add: applyIgnoreVCSConfiguration_def config_get_ignore_vcs_def demo_vcs_root_def)
qed

section \<open>Properties of the win32 watcher\<close>

lemma loop_body_shrinks:
  assumes "loop_body isIgnored inp st = (fl, st')"
  shows "count_list (wlog st') Shrunk = count_list (wlog st) Shrunk \<and> size_dw st' = size_dw st
       \<or> count_list (wlog st') Shrunk = count_list (wlog st) Shrunk + 1
          \<and> size_dw st > NETWORK_BUF_SIZE \<and> size_dw st' = NETWORK_BUF_SIZE"
  using assms
  by (auto simp: loop_body_def Let_def
      split: if_splits option.splits wait_status.splits sum.splits)

lemma thread_loop_shrinks:
  "count_list (wlog (snd (thread_loop isIgnored inps st))) Shrunk
     \<le> count_list (wlog st) Shrunk + (if size_dw st > NETWORK_BUF_SIZE then 1 else 0)"
proof (induction inps arbitrary: st)
  case Nil
  then show ?case by simp
next
  case (Cons inp inps)
  obtain fl st' where b: "loop_body isIgnored inp st = (fl, st')"
    by (cases "loop_body isIgnored inp st")
  from loop_body_shrinks [OF b] Cons.IH [of st'] b
  show ?case
    by (cases fl) (auto split: if_splits)
qed

lemma thread_shrinks_once:
  "count_list (wlog (snd (readChangesThread isIgnored first_read inps st))) Shrunk
     \<le> count_list (wlog st) Shrunk + 1"
proof (cases first_read)
  case (Some err)
  then show ?thesis by (simp add: readChangesThread_def thread_init_def)
next
  case None
  let ?st = "st\<lparr>initiate_read := False, wlog := wlog st @ [ReadIssued (size_dw st), CondNotify]\<rparr>"
  from thread_loop_shrinks [of isIgnored inps ?st] None
  show ?thesis
    by (auto simp: readChangesThread_def thread_init_def split: if_splits)
qed

text \<open>
  C4. A pass of the read loop that reaches the wait, is woken by the read's completion
  and finds that \<open>GetOverlappedResult\<close> failed with \<open>err\<close>. If \<open>err\<close> is
  \<open>ERROR_INVALID_PARAMETER\<close> and the size is above \<open>NETWORK_BUF_SIZE\<close> (64 KiB), the size
  becomes \<open>NETWORK_BUF_SIZE\<close>, the root is left alone and the loop goes on to issue the
  read again with that size. If \<open>err\<close> is \<open>ERROR_NOTIFY_ENUM_DIR\<close>, a recrawl is
  scheduled, the root is not cancelled and the loop goes on. For every other failure the
  root is cancelled and the loop ends. Over a whole run of the thread, whatever the
  system answers, the size is cut down at most once.
\<close>

theorem read_failure_handling:
  assumes "initiate_read st \<longrightarrow> read_error inp = None"
    and "wait_result inp = WAIT_OBJECT_0" and "overlapped inp = Inl err"
    and "\<not> cancelled (wroot st)" and "\<not> other_cancel inp"
  shows
   "(err = ERROR_INVALID_PARAMETER \<and> size_dw st > NETWORK_BUF_SIZE \<longrightarrow>
       (\<exists>st'. loop_body isIgnored inp st = (Continue, st')
          \<and> size_dw st' = NETWORK_BUF_SIZE \<and> initiate_read st' \<and> wroot st' = wroot st
          \<and> thread_loop isIgnored (inp # inps) st = thread_loop isIgnored inps st'
          \<and> (\<forall>inp'. read_error inp' = None \<longrightarrow>
                ReadIssued NETWORK_BUF_SIZE \<in> set (wlog (snd (loop_body isIgnored inp' st'))))))
    \<and> (err = ERROR_NOTIFY_ENUM_DIR \<longrightarrow>
       (\<exists>st'. loop_body isIgnored inp st = (Continue, st')
          \<and> wroot st' = scheduleRecrawl ''ERROR_NOTIFY_ENUM_DIR'' (wroot st)
          \<and> \<not> cancelled (wroot st')
          \<and> recrawl_requests (wroot st') = recrawl_requests (wroot st) @ [''ERROR_NOTIFY_ENUM_DIR'']
          \<and> size_dw st' = size_dw st
          \<and> thread_loop isIgnored (inp # inps) st = thread_loop isIgnored inps st'))
    \<and> (\<not> (err = ERROR_INVALID_PARAMETER \<and> size_dw st > NETWORK_BUF_SIZE)
        \<and> err \<noteq> ERROR_NOTIFY_ENUM_DIR \<longrightarrow>
       (\<exists>st'. loop_body isIgnored inp st = (Break, st')
          \<and> cancelled (wroot st')
          \<and> thread_loop isIgnored (inp # inps) st = (True, st')))
    \<and> count_list (wlog (snd (readChangesThread isIgnored first_read inps' st0))) Shrunk
         \<le> count_list (wlog st0) Shrunk + 1"
  using assms thread_shrinks_once [of isIgnored first_read inps' st0]
  by (auto simp: loop_body_def Let_def cancel_def scheduleRecrawl_def
      split: option.splits wait_status.splits sum.splits)

theorem read_failure_handling_witness:
  "(\<exists>st'. loop_body (\<lambda>p. False)
             \<lparr>other_cancel = False, read_error = None, wait_result = WAIT_OBJECT_0,
              overlapped = Inl ERROR_INVALID_PARAMETER\<rparr> (demo_reader 8650752)
           = (Continue, st')
         \<and> size_dw st' = NETWORK_BUF_SIZE \<and> initiate_read st')
   \<and> (\<exists>st'. loop_body (\<lambda>p. False)
             \<lparr>other_cancel = False, read_error = None, wait_result = WAIT_OBJECT_0,
              overlapped = Inl ERROR_NOTIFY_ENUM_DIR\<rparr> (demo_reader 8650752)
           = (Continue, st')
         \<and> recrawl_requests (wroot st') = [''ERROR_NOTIFY_ENUM_DIR''] \<and> \<not> cancelled (wroot st'))
   \<and> (\<exists>st'. loop_body (\<lambda>p. False)
             \<lparr>other_cancel = False, read_error = None, wait_result = WAIT_OBJECT_0,
              overlapped = Inl ERROR_INVALID_PARAMETER\<rparr> (demo_reader 65536)
           = (Break, st')
         \<and> cancelled (wroot st'))"
proof -
  let ?inp = "\<lambda>err. \<lparr>other_cancel = False, read_error = None, wait_result = WAIT_OBJECT_0,
                      overlapped = Inl err\<rparr>"
  have big: "size_dw (demo_reader 8650752) > NETWORK_BUF_SIZE"
    by (simp add: demo_reader_def NETWORK_BUF_SIZE_def)
  have small: "\<not> size_dw (demo_reader 65536) > NETWORK_BUF_SIZE"
    by (simp add: demo_reader_def NETWORK_BUF_SIZE_def)
  have nc: "\<not> cancelled (wroot (demo_reader n))" for n
    by (simp add: demo_reader_def)
  have rq: "recrawl_requests (wroot (demo_reader n)) = []" for n
    by (simp add: demo_reader_def)
  have a: "\<exists>st'. loop_body (\<lambda>p. False) (?inp ERROR_INVALID_PARAMETER) (demo_reader 8650752)
           = (Continue, st')
         \<and> size_dw st' = NETWORK_BUF_SIZE \<and> initiate_read st'"
    using read_failure_handling [of "demo_reader 8650752" "?inp ERROR_INVALID_PARAMETER"
        ERROR_INVALID_PARAMETER "\<lambda>p. False" "[]" None "[]" "demo_reader 8650752"] big nc
    by simp blast
  have b: "\<exists>st'. loop_body (\<lambda>p. False) (?inp ERROR_NOTIFY_ENUM_DIR) (demo_reader 8650752)
           = (Continue, st')
         \<and> recrawl_requests (wroot st') = [''ERROR_NOTIFY_ENUM_DIR''] \<and> \<not> cancelled (wroot st')"
    using read_failure_handling [of "demo_reader 8650752" "?inp ERROR_NOTIFY_ENUM_DIR"
        ERROR_NOTIFY_ENUM_DIR "\<lambda>p. False" "[]" None "[]" "demo_reader 8650752"] nc rq
    by simp blast
  have c: "\<exists>st'. loop_body (\<lambda>p. False) (?inp ERROR_INVALID_PARAMETER) (demo_reader 65536)
           = (Break, st')
         \<and> cancelled (wroot st')"
    using read_failure_handling [of "demo_reader 65536" "?inp ERROR_INVALID_PARAMETER"
        ERROR_INVALID_PARAMETER "\<lambda>p. False" "[]" None "[]" "demo_reader 65536"] small nc
    by simp blast
  from a b c show ?thesis by blast
qed

subsection \<open>The handshake of \<open>start\<close> and the read thread\<close>

lemma thread_init_notifies_after_read:
  "wlog st = [] \<Longrightarrow> notify_after_read False (wlog (snd (thread_init first_read st)))"
  by (simp add: thread_init_def split: option.splits)

lemma thread_init_failed_read:
  "thread_init (Some err) st = (running, st') \<Longrightarrow>
     \<not> running \<and> cancelled (wroot st') \<and> wlog st' = wlog st @ [ReadFailed err]"
  by (auto simp: thread_init_def cancel_def)

lemma watcher_start_timeout:
  "thread_created env \<Longrightarrow> \<not> notified_in_time env \<Longrightarrow>
     watcher_start env first_read st = (False, st\<lparr>wroot := cancel (wroot st)\<rparr>)"
  by (simp add: watcher_start_def)

lemma watcher_start_result:
  "watcher_start env first_read st =
     (if \<not> thread_created env then (False, st)
      else if \<not> notified_in_time env then (False, st\<lparr>wroot := cancel (wroot st)\<rparr>)
      else case first_read of
             None \<Rightarrow> (failure_reason (wroot st) = None,
                      st\<lparr>initiate_read := False,
                         wlog := wlog st @ [ReadIssued (size_dw st), CondNotify]\<rparr>)
           | Some err \<Rightarrow> (failure_reason (wroot st) = None,
                      st\<lparr>wroot := cancel (wroot st),
                         wlog := wlog st @ [ReadFailed err, CondNotify]\<rparr>))"
  by (simp add: watcher_start_def thread_init_def cancel_def split: option.splits)

text \<open>
  C5, at a first read that fails on a root with no failure reason, the thread ending
  within the ten seconds: the thread cancels the root and returns without the
  notification that follows a successful read; the wrapper's notification at the end of
  the thread wakes \<open>start\<close>, which finds no failure reason on the root and reports
  success. (The notification in the thread's start does follow the issued read, lemma
  \<open>thread_init_notifies_after_read\<close>, and a wait that times out makes \<open>start\<close> cancel the
  root and fail, lemma \<open>watcher_start_timeout\<close>.)
\<close>

theorem start_succeeds_after_failed_first_read:
  "watcher_start \<lparr>thread_created = True, notified_in_time = True\<rparr> (Some (ERROR_OTHER 5))
     (demo_reader 8650752) =
   (True,
    \<lparr>size_dw = 8650752, initiate_read = True,
     wroot = \<lparr>root_path = ''/repo'', cancelled = True, failure_reason = None,
              recrawl_requests = []\<rparr>,
     changedItems = [], wlog = [ReadFailed (ERROR_OTHER 5), CondNotify]\<rparr>)"
  by (simp add: watcher_start_def thread_init_def cancel_def demo_reader_def)

end
